theory Spec2Isabelle
  imports Main "HOL-Library.Word"
begin

section \<open>Data model of nats/consumer\_command.go\<close>

text \<open>
  The consumer configuration is \<open>api.ConsumerConfig\<close> of the jsm.go client library,
  restricted to the fields the command reads and writes. The three policy enumerations
  list their values in declaration order, so the first constructor is Go's zero value.
  \<open>time.Duration\<close> and Go's \<open>int\<close> are signed 64-bit integers on which the command
  performs comparisons only; they are \<open>int\<close> here. \<open>uint64\<close> fields are 64-bit
  words. An instant (\<open>time.Time\<close>) is an integer number of nanoseconds.
\<close>

datatype DeliverPolicy =
  DeliverAll | DeliverLast | DeliverNew | DeliverByStartSequence | DeliverByStartTime

datatype AckPolicy = AckNone | AckAll | AckExplicit

datatype ReplayPolicy = ReplayInstant | ReplayOriginal

record ConsumerConfig =
  Durable :: string
  DeliverSubject :: string
  DeliverPolicy :: DeliverPolicy
  OptStartSeq :: "64 word"
  OptStartTime :: "int option"
  AckPolicy :: AckPolicy
  AckWait :: int
  MaxDeliver :: int
  FilterSubject :: string
  ReplayPolicy :: ReplayPolicy
  SampleFrequency :: string
  RateLimit :: "64 word"
  MaxAckPending :: int

text \<open>The zero value \<open>api.ConsumerConfig{}\<close>.\<close>

definition zeroConfig :: ConsumerConfig where
  "zeroConfig =
     \<lparr>Durable = '''', DeliverSubject = '''', DeliverPolicy = DeliverAll, OptStartSeq = 0,
      OptStartTime = None, AckPolicy = AckNone, AckWait = 0, MaxDeliver = 0,
      FilterSubject = '''', ReplayPolicy = ReplayInstant, SampleFrequency = '''',
      RateLimit = 0, MaxAckPending = 0\<rparr>"

text \<open>
  \<open>consumerCmd\<close>: the command's flag and argument values. The connection handles
  \<open>mgr\<close> and \<open>nc\<close> are the broker, modelled separately.
\<close>

record consumerCmd =
  consumer :: string
  stream :: string
  ack :: bool
  raw :: bool
  destination :: string
  inputFile :: string
  outFile :: string
  bpsRateLimit :: "64 word"
  maxAckPending :: int
  maxDeliver :: int
  pull :: bool
  replayPolicy :: string
  startPolicy :: string
  ackPolicy :: string
  ackWait :: int
  samplePct :: int
  filterSubject :: string
  delivery :: string
  ephemeral :: bool
  validateOnly :: bool

text \<open>
  Failures. \<open>Fatal\<close> is \<open>kingpin.Fatalf\<close> / \<open>kingpin.FatalIfError\<close>: the message is
  printed and the process exits. \<open>Error\<close> is an error value returned to the caller.
\<close>

datatype cause =
    InvalidReplayPolicy string    \<comment> \<open>invalid replay policy '%s'\<close>
  | InvalidAckPolicy string       \<comment> \<open>invalid ack policy '%s'\<close>
  | SamplePercentRange            \<comment> \<open>sample percent is not between 0 and 100\<close>
  | StartingDelta string          \<comment> \<open>could not parse starting delta\<close>
  | DurableNameChars              \<comment> \<open>durable name can not contain '.', '*', '>'\<close>
  | EphemeralNotPush              \<comment> \<open>ephemeral Consumers has to be push-based.\<close>
  | PromptFailed string           \<comment> \<open>could not request / ask ...\<close>
  | NameMismatch string string    \<comment> \<open>non durable consumer name in %s does not match CLI consumer name %s\<close>
  | RateLimitOnPull               \<comment> \<open>rate limits are only possible on Push consumers\<close>
  | NotClustered                  \<comment> \<open>consumer %q > %q is not clustered\<close>
  | NoLeaderInTime                \<comment> \<open>consumer did not elect a new leader in time\<close>
  | CouldNotValidate string       \<comment> \<open>Could not validate configuration\<close>
  | ValidationFailed "string list" \<comment> \<open>Validation Failed: ...\<close>
  | CreationFailed string         \<comment> \<open>Consumer creation failed\<close>
  | CouldNotLoad string           \<comment> \<open>could not load Consumer / could not get Consumer info\<close>
  | CouldNotSubscribe string      \<comment> \<open>subscribe failed / could not subscribe\<close>
  | NoMessage string              \<comment> \<open>could not request next message / no message received\<close>
  | BadMetadata string            \<comment> \<open>could not parse JetStream metadata\<close>
  | CouldNotAck string            \<comment> \<open>could not Acknowledge message\<close>
  | UnknownState                  \<comment> \<open>consumer %s > %s is in an unknown state\<close>
  | SetupFailed string            \<comment> \<open>setup failed / could not select Stream\<close>
  | External string               \<comment> \<open>an error of a collaborator, passed through\<close>

datatype failure = Fatal cause | Error cause

text \<open>
  What the command consults outside itself while resolving a configuration: the clock,
  the file system, the JSON codec, the schema validator, the environment, and
  \<open>parseDurationString\<close>, a helper of this repository defined in another file.
\<close>

record env =
  parseDurationString :: "string \<Rightarrow> string + int"
  now :: int
  readFile :: "string \<Rightarrow> string + string"
  unmarshal :: "string \<Rightarrow> ConsumerConfig \<times> string option"
  marshalIndent :: "ConsumerConfig \<Rightarrow> string + string"
  getenvNOVALIDATE :: string
  validate :: "ConsumerConfig \<Rightarrow> bool \<times> string list"
  writeFile :: "string \<Rightarrow> string \<Rightarrow> string option"
  selectStream :: "string \<Rightarrow> string + string"
  newConsumer :: "string \<Rightarrow> ConsumerConfig \<Rightarrow> string + string"

text \<open>
  The answers of the interactive prompts (\<open>survey.AskOne\<close>), one field per prompt of
  \<open>prepareConfig\<close> in source order; \<open>None\<close> is a prompt that returned an error.
\<close>

record prompts =
  askName :: "string option"
  askDelivery :: "string option"
  askStartPolicy :: "string option"
  askAckPolicy :: "string option"
  askReplayPolicy :: "string option"
  askReplayMode :: "string option"
  askFilter :: "string option"
  askMaxDeliver :: "int option"
  askMaxAckPending :: "int option"

section \<open>Sequencing of fallible steps\<close>

definition bindR :: "'e + 'a \<Rightarrow> ('a \<Rightarrow> 'e + 'b) \<Rightarrow> 'e + 'b" where
  "bindR r f = (case r of Inl e \<Rightarrow> Inl e | Inr x \<Rightarrow> f x)"

text \<open>A prompt writes its answer into the command, or aborts the process.\<close>

definition prompt :: "'a option \<Rightarrow> string \<Rightarrow> ('a \<Rightarrow> 'b) \<Rightarrow> failure + 'b" where
  "prompt answer msg store =
     (case answer of None \<Rightarrow> Inl (Fatal (PromptFailed msg)) | Some a \<Rightarrow> Inr (store a))"

section \<open>String helpers of the Go library, on byte strings\<close>

text \<open>\<open>strings.ToLower\<close> on the ASCII letters; other bytes are kept.\<close>

definition lowerChar :: "char \<Rightarrow> char" where
  "lowerChar ch =
     (case map_of (zip ''ABCDEFGHIJKLMNOPQRSTUVWXYZ'' ''abcdefghijklmnopqrstuvwxyz'') ch of
        Some l \<Rightarrow> l
      | None \<Rightarrow> ch)"

definition ToLower :: "string \<Rightarrow> string" where
  "ToLower s = map lowerChar s"

definition isDigit :: "char \<Rightarrow> bool" where
  "isDigit ch = (let n = (of_char ch :: nat) in 48 \<le> n \<and> n \<le> 57)"

text \<open>\<open>regexp.MatchString("^\\d+$", s)\<close>: one or more ASCII digits and nothing else.\<close>

definition allDigits :: "string \<Rightarrow> bool" where
  "allDigits s = (s \<noteq> [] \<and> list_all isDigit s)"

text \<open>
  \<open>strconv.Atoi\<close> on a string of digits: its decimal value, or the largest \<open>int\<close>
  when the value does not fit (the error is ignored by the caller).
\<close>

definition decimalValue :: "string \<Rightarrow> nat" where
  "decimalValue s = foldl (\<lambda>a ch. 10 * a + (of_char ch - 48)) 0 s"

definition Atoi :: "string \<Rightarrow> int" where
  "Atoi s = (if decimalValue s > 2 ^ 63 - 1 then 2 ^ 63 - 1 else int (decimalValue s))"

text \<open>\<open>strconv.Itoa\<close>: the decimal digits of an integer.\<close>

fun natDigits :: "nat \<Rightarrow> string" where
  "natDigits n =
     (if n < 10 then [''0123456789'' ! n]
      else natDigits (n div 10) @ [''0123456789'' ! (n mod 10)])"

declare natDigits.simps [simp del]

definition Itoa :: "int \<Rightarrow> string" where
  "Itoa i = (if i < 0 then CHR ''-'' # natDigits (nat (- i)) else natDigits (nat i))"

text \<open>\<open>regexp.MatchString(`\.|\*|>`, s)\<close>: some character of \<open>s\<close> is one of the three.\<close>

definition hasReserved :: "string \<Rightarrow> bool" where
  "hasReserved s = list_ex (\<lambda>ch. ch = CHR ''.'' \<or> ch = CHR ''*'' \<or> ch = CHR ''>'') s"

section \<open>Policy parsers (lines 354 to 422)\<close>

definition replayPolicyFromString :: "string \<Rightarrow> failure + ReplayPolicy" where
  "replayPolicyFromString p =
     (let l = ToLower p in
      if l = ''instant'' then Inr ReplayInstant
      else if l = ''original'' then Inr ReplayOriginal
      else Inl (Fatal (InvalidReplayPolicy p)))"

definition ackPolicyFromString :: "string \<Rightarrow> failure + AckPolicy" where
  "ackPolicyFromString p =
     (let l = ToLower p in
      if l = ''none'' then Inr AckNone
      else if l = ''all'' then Inr AckAll
      else if l = ''explicit'' then Inr AckExplicit
      else Inl (Fatal (InvalidAckPolicy p)))"

text \<open>The range check is on the argument; the digits are those of \<open>c.samplePct\<close>.\<close>

definition sampleFreqFromString :: "consumerCmd \<Rightarrow> int \<Rightarrow> failure + string" where
  "sampleFreqFromString c s =
     (if s > 100 \<or> s < 0 then Inl (Fatal SamplePercentRange)
      else if s > 0 then Inr (Itoa (samplePct c))
      else Inr '''')"

definition defaultConsumer :: ConsumerConfig where
  "defaultConsumer = zeroConfig\<lparr>AckPolicy := AckExplicit, ReplayPolicy := ReplayInstant\<rparr>"

definition setStartPolicy :: "env \<Rightarrow> ConsumerConfig \<Rightarrow> string \<Rightarrow> failure + ConsumerConfig" where
  "setStartPolicy e cfg policy =
     (if policy = '''' then Inr cfg
      else if policy = ''all'' then Inr (cfg\<lparr>DeliverPolicy := DeliverAll\<rparr>)
      else if policy = ''last'' then Inr (cfg\<lparr>DeliverPolicy := DeliverLast\<rparr>)
      else if policy = ''new'' \<or> policy = ''next'' then Inr (cfg\<lparr>DeliverPolicy := DeliverNew\<rparr>)
      else if allDigits policy then
        Inr (cfg\<lparr>DeliverPolicy := DeliverByStartSequence, OptStartSeq := word_of_int (Atoi policy)\<rparr>)
      else
        (case parseDurationString e policy of
           Inl err \<Rightarrow> Inl (Fatal (StartingDelta err))
         | Inr d \<Rightarrow> Inr (cfg\<lparr>DeliverPolicy := DeliverByStartTime, OptStartTime := Some (now e - d)\<rparr>)))"

section \<open>The copy path: \<open>cpAction\<close> (lines 424 to 495)\<close>

text \<open>
  \<open>cpAction\<close> takes the configuration of the loaded source consumer and applies the
  supplied flags to it, statement by statement. The value is the configuration it hands
  to \<open>NewConsumerFromDefault\<close>, or the fatal exit of a parser on the way.
\<close>

definition cpAction :: "env \<Rightarrow> consumerCmd \<Rightarrow> ConsumerConfig \<Rightarrow> failure + ConsumerConfig" where
  "cpAction e c source =
     (let cfg = source;
          cfg = (if ackWait c > 0 then cfg\<lparr>AckWait := ackWait c\<rparr> else cfg)
      in
      bindR (if samplePct c \<noteq> - 1
             then bindR (sampleFreqFromString c (samplePct c)) (\<lambda>s. Inr (cfg\<lparr>SampleFrequency := s\<rparr>))
             else Inr cfg) (\<lambda>cfg.
      bindR (if startPolicy c \<noteq> '''' then setStartPolicy e cfg (startPolicy c) else Inr cfg) (\<lambda>cfg.
      let cfg = (if ephemeral c then cfg\<lparr>Durable := ''''\<rparr> else cfg\<lparr>Durable := destination c\<rparr>);
          cfg = (if delivery c \<noteq> '''' then cfg\<lparr>DeliverSubject := delivery c\<rparr> else cfg);
          cfg = (if pull c then cfg\<lparr>DeliverSubject := ''''\<rparr> else cfg);
          c = (if pull c then c\<lparr>ackPolicy := ''explicit''\<rparr> else c)
      in
      bindR (if ackPolicy c \<noteq> ''''
             then bindR (ackPolicyFromString (ackPolicy c)) (\<lambda>a. Inr (cfg\<lparr>AckPolicy := a\<rparr>))
             else Inr cfg) (\<lambda>cfg.
      let cfg = (if filterSubject c \<noteq> ''_unset_'' then cfg\<lparr>FilterSubject := filterSubject c\<rparr> else cfg)
      in
      bindR (if replayPolicy c \<noteq> ''''
             then bindR (replayPolicyFromString (replayPolicy c)) (\<lambda>r. Inr (cfg\<lparr>ReplayPolicy := r\<rparr>))
             else Inr cfg) (\<lambda>cfg.
      let cfg = (if maxDeliver c \<noteq> 0 then cfg\<lparr>MaxDeliver := maxDeliver c\<rparr> else cfg);
          cfg = (if bpsRateLimit c \<noteq> 0 then cfg\<lparr>RateLimit := bpsRateLimit c\<rparr> else cfg);
          cfg = (if maxAckPending c \<noteq> - 1 then cfg\<lparr>MaxAckPending := maxAckPending c\<rparr> else cfg)
      in Inr cfg)))))"

text \<open>
  The flag values of \<open>consumer copy STREAM SOURCE DESTINATION\<close> when no optional flag
  is given (the defaults declared in \<open>addCreateFlags\<close>; \<open>-1s\<close> is in nanoseconds).
\<close>

definition cpDefaults :: "string \<Rightarrow> string \<Rightarrow> string \<Rightarrow> consumerCmd" where
  "cpDefaults st src dst =
     \<lparr>consumer = src, stream = st, ack = False, raw = False, destination = dst,
      inputFile = '''', outFile = '''', bpsRateLimit = 0, maxAckPending = - 1,
      maxDeliver = 0, pull = False, replayPolicy = '''', startPolicy = '''',
      ackPolicy = '''', ackWait = - 1000000000, samplePct = - 1,
      filterSubject = ''_unset_'', delivery = '''', ephemeral = False,
      validateOnly = False\<rparr>"

section \<open>The create path: \<open>prepareConfig\<close> (lines 497 to 657)\<close>

text \<open>
  With \<open>--config FILE\<close> the file's content is decoded into an empty configuration and
  returned as it is, after the name comparison (lines 500 to 514). The caller drops the
  configuration whenever an error comes with it.
\<close>

definition prepareFromFile :: "env \<Rightarrow> consumerCmd \<Rightarrow> failure + ConsumerConfig" where
  "prepareFromFile e c =
     (case readFile e (inputFile c) of
        Inl err \<Rightarrow> Inl (Error (External err))
      | Inr f \<Rightarrow>
          (case unmarshal e f of
             (cfg, err) \<Rightarrow>
               if Durable cfg \<noteq> '''' \<and> consumer c \<noteq> '''' \<and> Durable cfg \<noteq> consumer c
               then Inl (Error (NameMismatch (inputFile c) (consumer c)))
               else (case err of Some m \<Rightarrow> Inl (Error (External m)) | None \<Rightarrow> Inr cfg)))"

text \<open>
  Without a file the function works through the flags in a fixed order, asking for what
  is missing. It updates both the command \<open>c\<close> and the configuration \<open>cfg\<close>; the pair
  is the state passed from one group of statements to the next.
\<close>

type_synonym prep = "consumerCmd \<times> ConsumerConfig"

text \<open>Lines 516 to 527: the durable name and its character check.\<close>

definition resolveName :: "prompts \<Rightarrow> prep \<Rightarrow> failure + prep" where
  "resolveName p st =
     (case st of (c, cfg) \<Rightarrow>
        bindR (if consumer c = '''' \<and> \<not> ephemeral c
               then prompt (askName p) ''could not request durable name'' (\<lambda>a. c\<lparr>consumer := a\<rparr>)
               else Inr c) (\<lambda>c.
        let cfg = cfg\<lparr>Durable := consumer c\<rparr> in
        if hasReserved (Durable cfg) then Inl (Fatal DurableNameChars) else Inr (c, cfg)))"

text \<open>Lines 529 to 546: the delivery subject; an empty one is pull mode, always explicit.\<close>

definition resolveDelivery :: "prompts \<Rightarrow> prep \<Rightarrow> failure + prep" where
  "resolveDelivery p st =
     (case st of (c, cfg) \<Rightarrow>
        bindR (if \<not> pull c \<and> delivery c = ''''
               then prompt (askDelivery p) ''could not request delivery target'' (\<lambda>a. c\<lparr>delivery := a\<rparr>)
               else Inr c) (\<lambda>c.
        if ephemeral c \<and> delivery c = '''' then Inl (Fatal EphemeralNotPush)
        else
          let cfg = cfg\<lparr>DeliverSubject := delivery c\<rparr>;
              c = (if delivery c = '''' then c\<lparr>ackPolicy := ''explicit''\<rparr> else c)
          in Inr (c, cfg)))"

text \<open>Lines 548 to 556: the start policy.\<close>

definition resolveStart :: "env \<Rightarrow> prompts \<Rightarrow> prep \<Rightarrow> failure + prep" where
  "resolveStart e p st =
     (case st of (c, cfg) \<Rightarrow>
        bindR (if startPolicy c = ''''
               then prompt (askStartPolicy p) ''could not request start policy'' (\<lambda>a. c\<lparr>startPolicy := a\<rparr>)
               else Inr c) (\<lambda>c.
        bindR (setStartPolicy e cfg (startPolicy c)) (\<lambda>cfg. Inr (c, cfg))))"

text \<open>
  Lines 558 to 585: the two policy prompts, then the acknowledgement policy, the
  delivery limit it forces, and the acknowledgement wait.
\<close>

definition resolveAck :: "prompts \<Rightarrow> prep \<Rightarrow> failure + prep" where
  "resolveAck p st =
     (case st of (c, cfg) \<Rightarrow>
        bindR (if ackPolicy c = ''''
               then prompt (askAckPolicy p) ''could not ask acknowledgement policy'' (\<lambda>a. c\<lparr>ackPolicy := a\<rparr>)
               else Inr c) (\<lambda>c.
        bindR (if replayPolicy c = ''''
               then prompt (askReplayPolicy p) ''could not ask replay policy'' (\<lambda>a. c\<lparr>replayPolicy := a\<rparr>)
               else Inr c) (\<lambda>c.
        bindR (ackPolicyFromString (ackPolicy c)) (\<lambda>a.
        let cfg = cfg\<lparr>AckPolicy := a\<rparr>;
            cfg = (if AckPolicy cfg = AckNone then cfg\<lparr>MaxDeliver := - 1\<rparr> else cfg);
            cfg = (if ackWait c > 0 then cfg\<lparr>AckWait := ackWait c\<rparr> else cfg)
        in Inr (c, cfg)))))"

text \<open>Lines 587 to 593: the sample percentage.\<close>

definition resolveSample :: "prep \<Rightarrow> failure + prep" where
  "resolveSample st =
     (case st of (c, cfg) \<Rightarrow>
        if samplePct c > 0 then
          (if samplePct c > 100 then Inl (Fatal SamplePercentRange)
           else Inr (c, cfg\<lparr>SampleFrequency := Itoa (samplePct c)\<rparr>))
        else Inr (c, cfg))"

text \<open>Lines 595 to 611: the replay policy, asked again for a push consumer.\<close>

definition resolveReplay :: "prompts \<Rightarrow> prep \<Rightarrow> failure + prep" where
  "resolveReplay p st =
     (case st of (c, cfg) \<Rightarrow>
        bindR (if DeliverSubject cfg \<noteq> '''' \<and> replayPolicy c = ''''
               then prompt (askReplayMode p) ''could not ask replay policy'' (\<lambda>a. c\<lparr>replayPolicy := a\<rparr>)
               else Inr c) (\<lambda>c.
        if replayPolicy c \<noteq> ''''
        then bindR (replayPolicyFromString (replayPolicy c)) (\<lambda>r. Inr (c, cfg\<lparr>ReplayPolicy := r\<rparr>))
        else Inr (c, cfg)))"

text \<open>Lines 613 to 621: the filter subject.\<close>

definition resolveFilter :: "prompts \<Rightarrow> prep \<Rightarrow> failure + prep" where
  "resolveFilter p st =
     (case st of (c, cfg) \<Rightarrow>
        bindR (if filterSubject c = ''_unset_''
               then prompt (askFilter p) ''could not ask for filtering subject'' (\<lambda>a. c\<lparr>filterSubject := a\<rparr>)
               else Inr c) (\<lambda>c.
        Inr (c, cfg\<lparr>FilterSubject := filterSubject c\<rparr>)))"

text \<open>Lines 623 to 656: delivery and pending limits, then the rate limit.\<close>

definition resolveLimits :: "prompts \<Rightarrow> prep \<Rightarrow> failure + ConsumerConfig" where
  "resolveLimits p st =
     (case st of (c, cfg) \<Rightarrow>
        bindR (if maxDeliver c = 0 \<and> AckPolicy cfg \<noteq> AckNone
               then prompt (askMaxDeliver p) ''could not ask for maximum allowed deliveries''
                      (\<lambda>a. c\<lparr>maxDeliver := a\<rparr>)
               else Inr c) (\<lambda>c.
        bindR (if maxAckPending c = - 1 \<and> AckPolicy cfg \<noteq> AckNone
               then prompt (askMaxAckPending p) ''could not ask for maximum outstanding acknowledgements''
                      (\<lambda>a. c\<lparr>maxAckPending := a\<rparr>)
               else Inr c) (\<lambda>c.
        let c = (if maxAckPending c = - 1 then c\<lparr>maxAckPending := 0\<rparr> else c);
            cfg = cfg\<lparr>MaxAckPending := maxAckPending c\<rparr>;
            cfg = (if maxDeliver c \<noteq> 0 \<and> AckPolicy cfg \<noteq> AckNone
                   then cfg\<lparr>MaxDeliver := maxDeliver c\<rparr> else cfg)
        in
        if bpsRateLimit c > 0 \<and> DeliverSubject cfg = '''' then Inl (Error RateLimitOnPull)
        else Inr (cfg\<lparr>RateLimit := bpsRateLimit c\<rparr>))))"

definition prepareConfig :: "env \<Rightarrow> prompts \<Rightarrow> consumerCmd \<Rightarrow> failure + ConsumerConfig" where
  "prepareConfig e p c =
     (if inputFile c \<noteq> '''' then prepareFromFile e c
      else
        bindR (resolveName p (c, defaultConsumer)) (\<lambda>st.
        bindR (resolveDelivery p st) (\<lambda>st.
        bindR (resolveStart e p st) (\<lambda>st.
        bindR (resolveAck p st) (\<lambda>st.
        bindR (resolveSample st) (\<lambda>st.
        bindR (resolveReplay p st) (\<lambda>st.
        bindR (resolveFilter p st) (\<lambda>st.
        resolveLimits p st))))))))"

section \<open>Validation and \<open>createAction\<close> (lines 659 to 715)\<close>

text \<open>
  How an action ends: it returns (with or without an error), the process exits through
  \<open>kingpin\<close>, it waits on a channel that will never deliver, or it panics.
\<close>

datatype outcome = Returned "cause option" | Exited cause | Blocked | Panicked

text \<open>
  \<open>validateCfg\<close> returns Go's four values; a \<open>nil\<close> byte slice is \<open>None\<close>, and
  \<open>string(j)\<close> of a \<open>nil\<close> slice is the empty string.
\<close>

definition validateCfg ::
  "env \<Rightarrow> ConsumerConfig \<Rightarrow> bool \<times> string option \<times> string list \<times> string option" where
  "validateCfg e cfg =
     (case marshalIndent e cfg of
        Inl err \<Rightarrow> (False, None, [], Some err)
      | Inr j \<Rightarrow>
          if getenvNOVALIDATE e \<noteq> '''' then (True, None, [], None)
          else (case validate e cfg of (valid, errs) \<Rightarrow> (valid, Some j, errs, None)))"

definition bytesString :: "string option \<Rightarrow> string" where
  "bytesString j = (case j of None \<Rightarrow> '''' | Some s \<Rightarrow> s)"

datatype effect =
    Println string
  | WriteFile string string
  | NewConsumer string ConsumerConfig
  | ShowConsumer string

definition createAction :: "env \<Rightarrow> prompts \<Rightarrow> consumerCmd \<Rightarrow> effect list \<times> outcome" where
  "createAction e p c =
     (case prepareConfig e p c of
        Inl (Fatal x) \<Rightarrow> ([], Exited x)
      | Inl (Error x) \<Rightarrow> ([], Returned (Some x))
      | Inr cfg \<Rightarrow>
          if validateOnly c then
            (case validateCfg e cfg of
               (valid, j, errs, err) \<Rightarrow>
                 (case err of
                    Some m \<Rightarrow> ([], Exited (CouldNotValidate m))
                  | None \<Rightarrow>
                      if \<not> valid
                      then ([Println (bytesString j), Println ''''], Exited (ValidationFailed errs))
                      else ([Println (bytesString j), Println '''',
                             Println ''Configuration is a valid Consumer''], Returned None)))
          else if outFile c \<noteq> '''' then
            (case validateCfg e cfg of
               (valid, j, errs, err) \<Rightarrow>
                 (case err of
                    Some m \<Rightarrow> ([], Exited (CouldNotValidate m))
                  | None \<Rightarrow>
                      if \<not> valid then ([], Exited (ValidationFailed errs))
                      else ([WriteFile (outFile c) (bytesString j)],
                            Returned (map_option External (writeFile e (outFile c) (bytesString j))))))
          else
            (case selectStream e (stream c) of
               Inl m \<Rightarrow> ([], Exited (SetupFailed m))
             | Inr st \<Rightarrow>
                 (case newConsumer e st cfg of
                    Inl m \<Rightarrow> ([NewConsumer st cfg], Exited (CreationFailed m))
                  | Inr name \<Rightarrow> ([NewConsumer st cfg, ShowConsumer name], Returned None))))"

section \<open>Leader step-down: \<open>leaderStandDown\<close> (lines 140 to 191)\<close>

text \<open>
  Of the runtime state the function reads the cluster part only; a consumer that is not
  clustered has none.
\<close>

record ClusterInfo =
  Leader :: string
  Replicas :: "string list"

record ConsumerInfo =
  Cluster :: "ClusterInfo option"

text \<open>
  The broker as the function sees it, once the consumer is selected: the result of
  \<open>LoadConsumer\<close>, the answer to each \<open>State()\<close> query (counted from 0), and the
  result of \<open>LeaderStepDown()\<close>. An error is \<open>Some\<close> / \<open>Inl\<close>.
\<close>

record broker =
  loadConsumer :: "string option"
  stateCall :: "nat \<Rightarrow> string + ConsumerInfo"
  leaderStepDown :: "string option"

datatype logline =
    Requesting string nat      \<comment> \<open>Requesting leader step down of %q in a %d peer RAFT group\<close>
  | FailedState string         \<comment> \<open>Failed to retrieve Consumer State: %s\<close>
  | NewLeader string           \<comment> \<open>New leader elected %q\<close>
  | LeaderDidNotChange         \<comment> \<open>Leader did not change after %s\<close>

datatype call = StateQuery | StepDownRequest | LogLine logline | Display

text \<open>
  \<open>time.NewTimer(d).C\<close> receives one value, \<open>d\<close> after its creation, and is never
  closed. A \<open>for range\<close> over a channel runs its body once per received value and waits
  for the next one in between.
\<close>

definition timerDeliveries :: nat where
  "timerDeliveries = 1"

datatype loopExit = Broke ConsumerInfo | LoopReturned cause | LoopBlocked | LoopPanicked

text \<open>
  The loop of lines 166 to 182. \<open>ticks\<close> is the number of values the channel will still
  deliver, \<open>ctr\<close> the counter, \<open>q\<close> the number of state queries made so far and \<open>tr\<close>
  the calls and log lines so far. With no value left the receive never completes.
  Reading \<open>info.Cluster.Leader\<close> of a state without cluster part is a nil dereference.
\<close>

fun pollLoop ::
  "broker \<Rightarrow> string \<Rightarrow> nat \<Rightarrow> nat \<Rightarrow> nat \<Rightarrow> call list \<Rightarrow> loopExit \<times> nat \<times> call list" where
  "pollLoop b leader 0 ctr q tr = (LoopBlocked, q, tr)"
| "pollLoop b leader (Suc ticks) ctr q tr =
     (if ctr = 5 then (LoopReturned NoLeaderInTime, q, tr)
      else
        (case stateCall b q of
           Inl err \<Rightarrow>
             pollLoop b leader ticks (ctr + 1) (q + 1) (tr @ [StateQuery, LogLine (FailedState err)])
         | Inr info \<Rightarrow>
             (case Cluster info of
                None \<Rightarrow> (LoopPanicked, q + 1, tr @ [StateQuery])
              | Some cl \<Rightarrow>
                  if Leader cl \<noteq> leader
                  then (Broke info, q + 1, tr @ [StateQuery, LogLine (NewLeader (Leader cl))])
                  else pollLoop b leader ticks (ctr + 1) (q + 1) (tr @ [StateQuery]))))"

text \<open>\<open>showConsumer\<close> (lines 241 to 247) queries the state once more and renders it.\<close>

definition showConsumer :: "broker \<Rightarrow> nat \<Rightarrow> call list \<Rightarrow> call list \<times> outcome" where
  "showConsumer b q tr =
     (case stateCall b q of
        Inl err \<Rightarrow> (tr @ [StateQuery], Exited (CouldNotLoad err))
      | Inr info \<Rightarrow> (tr @ [StateQuery, Display], Returned None))"

definition leaderStandDown :: "broker \<Rightarrow> call list \<times> outcome" where
  "leaderStandDown b =
     (case loadConsumer b of
        Some err \<Rightarrow> ([], Returned (Some (External err)))
      | None \<Rightarrow>
          (case stateCall b 0 of
             Inl err \<Rightarrow> ([StateQuery], Returned (Some (External err)))
           | Inr info \<Rightarrow>
               (case Cluster info of
                  None \<Rightarrow> ([StateQuery], Returned (Some NotClustered))
                | Some cl \<Rightarrow>
                    let leader = Leader cl;
                        tr = [StateQuery, LogLine (Requesting leader (length (Replicas cl) + 1)),
                              StepDownRequest]
                    in
                    (case leaderStepDown b of
                       Some err \<Rightarrow> (tr, Returned (Some (External err)))
                     | None \<Rightarrow>
                         (case pollLoop b leader timerDeliveries 0 1 tr of
                            (LoopBlocked, q, tr) \<Rightarrow> (tr, Blocked)
                          | (LoopPanicked, q, tr) \<Rightarrow> (tr, Panicked)
                          | (LoopReturned x, q, tr) \<Rightarrow> (tr, Returned (Some x))
                          | (Broke info, q, tr) \<Rightarrow>
                              (case Cluster info of
                                 None \<Rightarrow> (tr, Panicked)
                               | Some cl \<Rightarrow>
                                   showConsumer b q
                                     (if Leader cl = leader
                                      then tr @ [LogLine LeaderDidNotChange] else tr)))))))"

section \<open>Message retrieval: \<open>subAction\<close> (lines 717 to 879)\<close>

text \<open>
  A received message, with what the library calls on it return: the error of
  \<open>ParseJSMsgMetadata\<close> and the error of \<open>Respond\<close>, if any.
\<close>

record Msg =
  Subject :: string
  Reply :: string
  Data :: string
  Header :: "(string \<times> string list) list"
  metadataErr :: "string option"
  respondErr :: "string option"

text \<open>The loaded consumer, as far as \<open>subAction\<close> asks it.\<close>

record consumerHandle =
  hAckPolicy :: AckPolicy
  hIsPullMode :: bool
  hIsPushMode :: bool

text \<open>
  One run of the command against the broker: the results of the library calls, the
  delay drawn by \<open>r.Intn(int(c.ackWait))\<close>, and the messages that arrive on the
  subscription, in order.
\<close>

record session =
  loadErr :: "string option"
  handle :: consumerHandle
  subscribeErr :: "string option"
  requestErr :: "string option"
  nextMsg :: "string + Msg"
  jitter :: int
  incoming :: "Msg list"

text \<open>
  What the command does that an observer can see: the banner, a message rendered with
  its metadata and headers or its raw body, a sleep, an acknowledgement (\<open>Respond\<close> with
  an empty payload), a flush, and the two reports about acknowledgements.
\<close>

datatype subEvent =
    Banner
  | Render Msg
  | RawBody string
  | Sleep int
  | Respond Msg
  | Flush
  | AckReport int
  | AckFailureReport Msg string

definition getNextMsgDirect :: "consumerCmd \<Rightarrow> session \<Rightarrow> subEvent list \<times> outcome" where
  "getNextMsgDirect c s =
     (case subscribeErr s of
        Some err \<Rightarrow> ([], Exited (CouldNotSubscribe err))
      | None \<Rightarrow>
          (case requestErr s of
             Some err \<Rightarrow> ([], Exited (NoMessage err))
           | None \<Rightarrow>
               (case nextMsg s of
                  Inl err \<Rightarrow> ([], Exited (NoMessage err))
                | Inr m \<Rightarrow>
                    let out = [if raw c then RawBody (Data m) else Render m] in
                    if ack c then
                      let stime = (if ackWait c > 0 then jitter s else 0);
                          out = (if stime > 0 then out @ [Sleep stime] else out)
                      in
                      (case respondErr m of
                         Some err \<Rightarrow> (out @ [Respond m], Exited (CouldNotAck err))
                       | None \<Rightarrow>
                           (out @ [Respond m, Flush] @ (if raw c then [] else [AckReport stime]),
                            Returned None))
                    else (out, Returned None))))"

text \<open>The subscription callback of lines 811 to 853, for one message.\<close>

definition onMessage :: "consumerCmd \<Rightarrow> Msg \<Rightarrow> subEvent list \<times> cause option" where
  "onMessage c m =
     (case metadataErr m of
        Some err \<Rightarrow> ([], Some (BadMetadata err))
      | None \<Rightarrow>
          let out = [if raw c then RawBody (Data m) else Render m] in
          if ack c then
            (case respondErr m of
               None \<Rightarrow> (out @ [Respond m], None)
             | Some err \<Rightarrow> (out @ [Respond m, AckFailureReport m err], None))
          else (out, None))"

text \<open>
  The callback runs for each arriving message; after the last one the command keeps
  waiting on \<open>context.Background().Done()\<close>, which never fires.
\<close>

fun deliver :: "consumerCmd \<Rightarrow> Msg list \<Rightarrow> subEvent list \<times> outcome" where
  "deliver c [] = ([], Blocked)"
| "deliver c (m # ms) =
     (case onMessage c m of
        (ev, Some x) \<Rightarrow> (ev, Exited x)
      | (ev, None) \<Rightarrow> (case deliver c ms of (evs, out) \<Rightarrow> (ev @ evs, out)))"

definition subscribeConsumer :: "consumerCmd \<Rightarrow> session \<Rightarrow> subEvent list \<times> outcome" where
  "subscribeConsumer c s =
     (let banner = (if raw c then [] else [Banner]) in
      case subscribeErr s of
        Some err \<Rightarrow> (banner, Exited (CouldNotSubscribe err))
      | None \<Rightarrow> (case deliver c (incoming s) of (evs, out) \<Rightarrow> (banner @ evs, out)))"

definition subAction :: "consumerCmd \<Rightarrow> session \<Rightarrow> subEvent list \<times> outcome" where
  "subAction c s =
     (case loadErr s of
        Some err \<Rightarrow> ([], Exited (CouldNotLoad err))
      | None \<Rightarrow>
          let c = (if hAckPolicy (handle s) = AckNone then c\<lparr>ack := False\<rparr> else c) in
          if hIsPullMode (handle s) then getNextMsgDirect c s
          else if hIsPushMode (handle s) then subscribeConsumer c s
          else ([], Returned (Some UnknownState)))"

section \<open>Concrete inputs\<close>

text \<open>
  An environment in which no collaborator is available, for runs that consult none, and
  the prompts of a session in which every prompt fails.
\<close>

definition idleEnv :: env where
  "idleEnv =
     \<lparr>parseDurationString = (\<lambda>s. Inl ''invalid duration''), now = 0,
      readFile = (\<lambda>path. Inl ''no such file''),
      unmarshal = (\<lambda>f. (zeroConfig, Some ''unexpected end of JSON input'')),
      marshalIndent = (\<lambda>cfg. Inl ''unsupported''), getenvNOVALIDATE = '''',
      validate = (\<lambda>cfg. (False, [''no schema''])), writeFile = (\<lambda>path content. Some ''read-only''),
      selectStream = (\<lambda>s. Inl ''not connected''), newConsumer = (\<lambda>s cfg. Inl ''not connected'')\<rparr>"

definition noAnswers :: prompts where
  "noAnswers =
     \<lparr>askName = None, askDelivery = None, askStartPolicy = None, askAckPolicy = None,
      askReplayPolicy = None, askReplayMode = None, askFilter = None, askMaxDeliver = None,
      askMaxAckPending = None\<rparr>"

text \<open>
  \<open>consumer add ORDERS NEW --target out.new --deliver all --ack none --replay instant
  --filter ''\<close>: every value the resolution would ask for is given.
\<close>

definition addFlags :: consumerCmd where
  "addFlags =
     \<lparr>consumer = ''NEW'', stream = ''ORDERS'', ack = False, raw = False, destination = '''',
      inputFile = '''', outFile = '''', bpsRateLimit = 0, maxAckPending = - 1,
      maxDeliver = 0, pull = False, replayPolicy = ''instant'', startPolicy = ''all'',
      ackPolicy = ''none'', ackWait = - 1000000000, samplePct = - 1,
      filterSubject = '''', delivery = ''out.new'', ephemeral = False,
      validateOnly = False\<rparr>"

text \<open>The configuration of an existing push consumer, as the source of a copy.\<close>

definition sourceConfig :: ConsumerConfig where
  "sourceConfig =
     \<lparr>Durable = ''NEW'', DeliverSubject = ''out.new'', DeliverPolicy = DeliverAll,
      OptStartSeq = 0, OptStartTime = None, AckPolicy = AckAll, AckWait = 30000000000,
      MaxDeliver = 3, FilterSubject = '''', ReplayPolicy = ReplayInstant,
      SampleFrequency = ''50'', RateLimit = 0, MaxAckPending = 0\<rparr>"

text \<open>
  An environment with the validation bypass set and a codec that succeeds (it stands for
  \<open>json.MarshalIndent\<close> with some non-empty output).
\<close>

definition bypassEnv :: env where
  "bypassEnv = idleEnv\<lparr>getenvNOVALIDATE := ''1'', marshalIndent := (\<lambda>cfg. Inr (''durable_name: '' @ Durable cfg)),
      writeFile := (\<lambda>path content. None)\<rparr>"

text \<open>
  A three-peer consumer whose leader stays \<open>n1\<close> in every state answer, and one whose
  runtime state has no cluster part.
\<close>

definition steadyBroker :: broker where
  "steadyBroker =
     \<lparr>loadConsumer = None,
      stateCall = (\<lambda>q. Inr \<lparr>Cluster = Some \<lparr>Leader = ''n1'', Replicas = [''n2'', ''n3'']\<rparr>\<rparr>),
      leaderStepDown = None\<rparr>"

definition soloBroker :: broker where
  "soloBroker =
     \<lparr>loadConsumer = None, stateCall = (\<lambda>q. Inr \<lparr>Cluster = None\<rparr>), leaderStepDown = None\<rparr>"

text \<open>
  A push consumer with acknowledgement policy none on which two messages arrive, for a
  caller that asked for acknowledgements.
\<close>

definition msgA :: Msg where
  "msgA = \<lparr>Subject = ''orders.1'', Reply = ''$JS.ACK.1'', Data = ''a'', Header = [],
            metadataErr = None, respondErr = None\<rparr>"

definition msgB :: Msg where
  "msgB = \<lparr>Subject = ''orders.2'', Reply = ''$JS.ACK.2'', Data = ''b'', Header = [],
            metadataErr = None, respondErr = None\<rparr>"

definition pushNone :: session where
  "pushNone =
     \<lparr>loadErr = None,
      handle = \<lparr>hAckPolicy = AckNone, hIsPullMode = False, hIsPushMode = True\<rparr>,
      subscribeErr = None, requestErr = None, nextMsg = Inl ''timeout'', jitter = 0,
      incoming = [msgA, msgB]\<rparr>"

definition subFlags :: consumerCmd where
  "subFlags = addFlags\<lparr>ack := True\<rparr>"

section \<open>Auxiliary facts about the resolution steps\<close>

text \<open>
  Each group of statements of \<open>prepareConfig\<close> leaves most of the state alone. The
  lemmas below record, per group, the fields that the later theorems follow through the
  function.
\<close>

lemma bindR_Inl [simp]: "bindR (Inl x) f = Inl x"
  by (simp add: bindR_def)

lemma bindR_Inr [simp]: "bindR (Inr x) f = f x"
  by (simp add: bindR_def)

lemma bindR_eq_Inr: "bindR r f = Inr y \<longleftrightarrow> (\<exists>x. r = Inr x \<and> f x = Inr y)"
  by (cases r) simp_all

lemma bindR_InrE:
  assumes "bindR r f = Inr y"
  obtains x where "r = Inr x" and "f x = Inr y"
  using assms by (cases r) simp_all

lemma prompt_eq_Inr: "prompt a msg store = Inr y \<longleftrightarrow> (\<exists>x. a = Some x \<and> y = store x)"
  by (cases a) (auto simp: prompt_def)

lemma prepareConfig_stages:
  assumes "inputFile c = []" and "prepareConfig e p c = Inr cfg"
  obtains st1 st2 st3 st4 st5 st6 st7 where
    "resolveName p (c, defaultConsumer) = Inr st1"
    "resolveDelivery p st1 = Inr st2"
    "resolveStart e p st2 = Inr st3"
    "resolveAck p st3 = Inr st4"
    "resolveSample st4 = Inr st5"
    "resolveReplay p st5 = Inr st6"
    "resolveFilter p st6 = Inr st7"
    "resolveLimits p st7 = Inr cfg"
proof -
  from assms have
    "bindR (resolveName p (c, defaultConsumer)) (\<lambda>st.
        bindR (resolveDelivery p st) (\<lambda>st.
        bindR (resolveStart e p st) (\<lambda>st.
        bindR (resolveAck p st) (\<lambda>st.
        bindR (resolveSample st) (\<lambda>st.
        bindR (resolveReplay p st) (\<lambda>st.
        bindR (resolveFilter p st) (\<lambda>st.
        resolveLimits p st))))))) = Inr cfg"
    unfolding prepareConfig_def by simp
  then show thesis
    by (elim bindR_InrE) (rule that, assumption+)
qed

lemma resolveName_ok:
  "resolveName p (c, cfg) = Inr (c', cfg') \<Longrightarrow>
     \<not> hasReserved (Durable cfg') \<and> bpsRateLimit c' = bpsRateLimit c \<and> samplePct c' = samplePct c
     \<and> pull c' = pull c \<and> delivery c' = delivery c"
  by (auto simp: resolveName_def bindR_eq_Inr prompt_eq_Inr Let_def split: if_splits)

lemma resolveDelivery_keeps:
  "resolveDelivery p (c, cfg) = Inr (c', cfg') \<Longrightarrow>
     Durable cfg' = Durable cfg \<and> bpsRateLimit c' = bpsRateLimit c \<and> samplePct c' = samplePct c
     \<and> DeliverSubject cfg' = (if \<not> pull c \<and> delivery c = [] then the (askDelivery p) else delivery c)"
  by (auto simp: resolveDelivery_def bindR_eq_Inr prompt_eq_Inr Let_def split: if_splits)

lemma resolveStart_keeps:
  "resolveStart e p (c, cfg) = Inr (c', cfg') \<Longrightarrow>
     Durable cfg' = Durable cfg \<and> DeliverSubject cfg' = DeliverSubject cfg
     \<and> bpsRateLimit c' = bpsRateLimit c \<and> samplePct c' = samplePct c"
  by (auto simp: resolveStart_def setStartPolicy_def bindR_eq_Inr prompt_eq_Inr Let_def
      split: if_splits sum.splits)

lemma resolveAck_keeps:
  assumes "resolveAck p (c, cfg) = Inr (c', cfg')"
  shows "Durable cfg' = Durable cfg \<and> DeliverSubject cfg' = DeliverSubject cfg
     \<and> bpsRateLimit c' = bpsRateLimit c \<and> samplePct c' = samplePct c
     \<and> (AckPolicy cfg' = AckNone \<longrightarrow> MaxDeliver cfg' = - 1)"
proof -
  from assms obtain c1 c2 a where
    c1: "(if ackPolicy c = []
          then prompt (askAckPolicy p) ''could not ask acknowledgement policy'' (\<lambda>a. c\<lparr>ackPolicy := a\<rparr>)
          else Inr c) = Inr c1"
    and c2: "(if replayPolicy c1 = []
          then prompt (askReplayPolicy p) ''could not ask replay policy'' (\<lambda>a. c1\<lparr>replayPolicy := a\<rparr>)
          else Inr c1) = Inr c2"
    and rest: "(let g = cfg\<lparr>AckPolicy := a\<rparr>;
            g = (if AckPolicy g = AckNone then g\<lparr>MaxDeliver := - 1\<rparr> else g);
            g = (if ackWait c2 > 0 then g\<lparr>AckWait := ackWait c2\<rparr> else g)
        in Inr (c2, g)) = (Inr (c', cfg') :: failure + prep)"
    unfolding resolveAck_def prod.case by (elim bindR_InrE) blast
  from c1 have b1: "bpsRateLimit c1 = bpsRateLimit c \<and> samplePct c1 = samplePct c"
    by (cases "ackPolicy c = []") (auto simp: prompt_eq_Inr)
  from c2 have b2: "bpsRateLimit c2 = bpsRateLimit c1 \<and> samplePct c2 = samplePct c1"
    by (cases "replayPolicy c1 = []") (auto simp: prompt_eq_Inr)
  from rest have "c' = c2 \<and> Durable cfg' = Durable cfg \<and> DeliverSubject cfg' = DeliverSubject cfg
     \<and> (AckPolicy cfg' = AckNone \<longrightarrow> MaxDeliver cfg' = - 1)"
    by (auto simp: Let_def split: if_splits)
  with b1 b2 show ?thesis by simp
qed

lemma resolveSample_keeps:
  "resolveSample (c, cfg) = Inr (c', cfg') \<Longrightarrow>
     Durable cfg' = Durable cfg \<and> DeliverSubject cfg' = DeliverSubject cfg
     \<and> bpsRateLimit c' = bpsRateLimit c
     \<and> AckPolicy cfg' = AckPolicy cfg \<and> MaxDeliver cfg' = MaxDeliver cfg"
  by (auto simp: resolveSample_def split: if_splits)

lemma resolveFilter_keeps:
  "resolveFilter p (c, cfg) = Inr (c', cfg') \<Longrightarrow>
     Durable cfg' = Durable cfg \<and> DeliverSubject cfg' = DeliverSubject cfg
     \<and> bpsRateLimit c' = bpsRateLimit c
     \<and> AckPolicy cfg' = AckPolicy cfg \<and> MaxDeliver cfg' = MaxDeliver cfg
     \<and> SampleFrequency cfg' = SampleFrequency cfg"
  by (auto simp: resolveFilter_def bindR_eq_Inr prompt_eq_Inr Let_def split: if_splits)

lemma resolveReplay_keeps:
  assumes "resolveReplay p (c, cfg) = Inr (c', cfg')"
  shows "Durable cfg' = Durable cfg \<and> DeliverSubject cfg' = DeliverSubject cfg
     \<and> bpsRateLimit c' = bpsRateLimit c
     \<and> AckPolicy cfg' = AckPolicy cfg \<and> MaxDeliver cfg' = MaxDeliver cfg
     \<and> SampleFrequency cfg' = SampleFrequency cfg"
proof -
  from assms obtain c1 where
    c1: "(if DeliverSubject cfg \<noteq> [] \<and> replayPolicy c = []
          then prompt (askReplayMode p) ''could not ask replay policy'' (\<lambda>a. c\<lparr>replayPolicy := a\<rparr>)
          else Inr c) = Inr c1"
    and rest: "(if replayPolicy c1 \<noteq> []
        then bindR (replayPolicyFromString (replayPolicy c1)) (\<lambda>r. Inr (c1, cfg\<lparr>ReplayPolicy := r\<rparr>))
        else Inr (c1, cfg)) = Inr (c', cfg')"
    unfolding resolveReplay_def prod.case by (elim bindR_InrE) blast
  from c1 have b: "bpsRateLimit c1 = bpsRateLimit c"
    by (cases "DeliverSubject cfg \<noteq> [] \<and> replayPolicy c = []") (auto simp: prompt_eq_Inr)
  from rest have "c' = c1 \<and> Durable cfg' = Durable cfg \<and> DeliverSubject cfg' = DeliverSubject cfg
     \<and> AckPolicy cfg' = AckPolicy cfg \<and> MaxDeliver cfg' = MaxDeliver cfg
     \<and> SampleFrequency cfg' = SampleFrequency cfg"
    by (cases "replayPolicy c1 = []") (auto elim!: bindR_InrE)
  with b show ?thesis by simp
qed

lemma resolveLimits_keeps:
  assumes "resolveLimits p (c, cfg) = Inr cfg'"
  shows "Durable cfg' = Durable cfg \<and> DeliverSubject cfg' = DeliverSubject cfg
     \<and> RateLimit cfg' = bpsRateLimit c
     \<and> (bpsRateLimit c > 0 \<longrightarrow> DeliverSubject cfg \<noteq> [])
     \<and> AckPolicy cfg' = AckPolicy cfg
     \<and> (AckPolicy cfg = AckNone \<longrightarrow> MaxDeliver cfg' = MaxDeliver cfg)
     \<and> SampleFrequency cfg' = SampleFrequency cfg"
proof -
  from assms obtain c1 c2 where
    c1: "(if maxDeliver c = 0 \<and> AckPolicy cfg \<noteq> AckNone
               then prompt (askMaxDeliver p) ''could not ask for maximum allowed deliveries''
                      (\<lambda>a. c\<lparr>maxDeliver := a\<rparr>)
               else Inr c) = Inr c1"
    and c2: "(if maxAckPending c1 = - 1 \<and> AckPolicy cfg \<noteq> AckNone
               then prompt (askMaxAckPending p) ''could not ask for maximum outstanding acknowledgements''
                      (\<lambda>a. c1\<lparr>maxAckPending := a\<rparr>)
               else Inr c1) = Inr c2"
    and rest: "(let c = (if maxAckPending c2 = - 1 then c2\<lparr>maxAckPending := 0\<rparr> else c2);
            cfg = cfg\<lparr>MaxAckPending := maxAckPending c\<rparr>;
            cfg = (if maxDeliver c \<noteq> 0 \<and> AckPolicy cfg \<noteq> AckNone
                   then cfg\<lparr>MaxDeliver := maxDeliver c\<rparr> else cfg)
        in
        if bpsRateLimit c > 0 \<and> DeliverSubject cfg = [] then Inl (Error RateLimitOnPull)
        else Inr (cfg\<lparr>RateLimit := bpsRateLimit c\<rparr>)) = Inr cfg'"
    unfolding resolveLimits_def prod.case by (elim bindR_InrE) blast
  from c1 have b1: "bpsRateLimit c1 = bpsRateLimit c"
    by (cases "maxDeliver c = 0 \<and> AckPolicy cfg \<noteq> AckNone") (auto simp: prompt_eq_Inr)
  from c2 have b2: "bpsRateLimit c2 = bpsRateLimit c1"
    by (cases "maxAckPending c1 = - 1 \<and> AckPolicy cfg \<noteq> AckNone") (auto simp: prompt_eq_Inr)
  from rest b1 b2 show ?thesis
    by (auto simp: Let_def split: if_splits)
qed


lemmas resolution_defs =
  prepareConfig_def resolveName_def resolveDelivery_def resolveStart_def resolveAck_def
  resolveSample_def resolveReplay_def resolveFilter_def resolveLimits_def prompt_def
  setStartPolicy_def ackPolicyFromString_def replayPolicyFromString_def ToLower_def
  lowerChar_def hasReserved_def defaultConsumer_def zeroConfig_def allDigits_def isDigit_def
  sampleFreqFromString_def Itoa_def

lemma prepareConfig_follow:
  assumes "inputFile c = []" and "prepareConfig e p c = Inr cfg"
  shows "\<not> hasReserved (Durable cfg)"
    and "AckPolicy cfg = AckNone \<longrightarrow> MaxDeliver cfg = - 1"
    and "RateLimit cfg = bpsRateLimit c"
    and "0 < bpsRateLimit c \<longrightarrow> DeliverSubject cfg \<noteq> []"
    and "DeliverSubject cfg = (if \<not> pull c \<and> delivery c = [] then the (askDelivery p) else delivery c)"
proof -
  from assms obtain st1 st2 st3 st4 st5 st6 st7 where
    "resolveName p (c, defaultConsumer) = Inr st1"
    "resolveDelivery p st1 = Inr st2"
    "resolveStart e p st2 = Inr st3"
    "resolveAck p st3 = Inr st4"
    "resolveSample st4 = Inr st5"
    "resolveReplay p st5 = Inr st6"
    "resolveFilter p st6 = Inr st7"
    "resolveLimits p st7 = Inr cfg"
    by (rule prepareConfig_stages)
  then have
    s1: "resolveName p (c, defaultConsumer) = Inr (fst st1, snd st1)" and
    s2: "resolveDelivery p (fst st1, snd st1) = Inr (fst st2, snd st2)" and
    s3: "resolveStart e p (fst st2, snd st2) = Inr (fst st3, snd st3)" and
    s4: "resolveAck p (fst st3, snd st3) = Inr (fst st4, snd st4)" and
    s5: "resolveSample (fst st4, snd st4) = Inr (fst st5, snd st5)" and
    s6: "resolveReplay p (fst st5, snd st5) = Inr (fst st6, snd st6)" and
    s7: "resolveFilter p (fst st6, snd st6) = Inr (fst st7, snd st7)" and
    s8: "resolveLimits p (fst st7, snd st7) = Inr cfg"
    by simp_all
  note k1 = resolveName_ok [OF s1] and k2 = resolveDelivery_keeps [OF s2]
    and k3 = resolveStart_keeps [OF s3] and k4 = resolveAck_keeps [OF s4]
    and k5 = resolveSample_keeps [OF s5] and k6 = resolveReplay_keeps [OF s6]
    and k7 = resolveFilter_keeps [OF s7] and k8 = resolveLimits_keeps [OF s8]
  have d: "Durable cfg = Durable (snd st1)"
    using k2 k3 k4 k5 k6 k7 k8 by simp
  with k1 show "\<not> hasReserved (Durable cfg)" by simp
  have a: "AckPolicy cfg = AckPolicy (snd st4)" "AckPolicy (snd st7) = AckPolicy (snd st4)"
    "MaxDeliver (snd st7) = MaxDeliver (snd st4)"
    using k5 k6 k7 k8 by simp_all
  with k4 k8 show "AckPolicy cfg = AckNone \<longrightarrow> MaxDeliver cfg = - 1" by simp
  have b: "bpsRateLimit (fst st7) = bpsRateLimit c"
    using k1 k2 k3 k4 k5 k6 k7 by simp
  with k8 show "RateLimit cfg = bpsRateLimit c" by simp
  have s: "DeliverSubject cfg = DeliverSubject (snd st7)" "DeliverSubject (snd st7) = DeliverSubject (snd st2)"
    using k3 k4 k5 k6 k7 k8 by simp_all
  with k8 b show "0 < bpsRateLimit c \<longrightarrow> DeliverSubject cfg \<noteq> []" by simp
  from s k2 k1 show "DeliverSubject cfg = (if \<not> pull c \<and> delivery c = [] then the (askDelivery p) else delivery c)"
    by simp
qed


section \<open>Delivery limit without acknowledgements\<close>

text \<open>
  C2, for the create path without a configuration file. On the create path without a configuration file, every resolved
  configuration whose acknowledgement policy is none has \<open>MaxDeliver = -1\<close>, whatever
  \<open>--max-deliver\<close> value was supplied.
\<close>

theorem prepareConfig_ackNone_maxDeliver:
  assumes "inputFile c = []" and "prepareConfig e p c = Inr cfg" and "AckPolicy cfg = AckNone"
  shows "MaxDeliver cfg = - 1"
  using prepareConfig_follow(2) [OF assms(1,2)] assms(3) by simp

theorem prepareConfig_ackNone_maxDeliver_witness:
  "inputFile (addFlags\<lparr>maxDeliver := 5\<rparr>) = []
   \<and> prepareConfig idleEnv noAnswers (addFlags\<lparr>maxDeliver := 5\<rparr>) =
       Inr \<lparr>Durable = ''NEW'', DeliverSubject = ''out.new'', DeliverPolicy = DeliverAll,
            OptStartSeq = 0, OptStartTime = None, AckPolicy = AckNone, AckWait = 0,
            MaxDeliver = - 1, FilterSubject = [], ReplayPolicy = ReplayInstant,
            SampleFrequency = [], RateLimit = 0, MaxAckPending = 0\<rparr>"
proof -
  let ?c = "addFlags\<lparr>maxDeliver := 5\<rparr>"
  obtain cfg where r: "prepareConfig idleEnv noAnswers ?c = Inr cfg"
    and f: "Durable cfg = ''NEW''" "DeliverSubject cfg = ''out.new''" "DeliverPolicy cfg = DeliverAll"
      "OptStartSeq cfg = 0" "OptStartTime cfg = None" "AckPolicy cfg = AckNone" "AckWait cfg = 0"
      "FilterSubject cfg = []" "ReplayPolicy cfg = ReplayInstant" "SampleFrequency cfg = []"
      "RateLimit cfg = 0" "MaxAckPending cfg = 0"
    by (simp add: resolution_defs addFlags_def noAnswers_def idleEnv_def)
  have i: "inputFile ?c = []" by (simp add: addFlags_def)
  from prepareConfig_ackNone_maxDeliver [OF i r f(6)] have "MaxDeliver cfg = - 1" .
  with f have "cfg = \<lparr>Durable = ''NEW'', DeliverSubject = ''out.new'', DeliverPolicy = DeliverAll,
            OptStartSeq = 0, OptStartTime = None, AckPolicy = AckNone, AckWait = 0,
            MaxDeliver = - 1, FilterSubject = [], ReplayPolicy = ReplayInstant,
            SampleFrequency = [], RateLimit = 0, MaxAckPending = 0\<rparr>"
    by simp
  with r i show ?thesis by simp
qed

text \<open>
  The copy path applies \<open>--max-deliver\<close> without looking at the acknowledgement policy:
  copying with \<open>--ack none --max-deliver 5\<close> yields policy none with limit 5.
\<close>

theorem cpAction_ackNone_maxDeliver_counterexample:
  "cpAction idleEnv ((cpDefaults ''ORDERS'' ''NEW'' ''COPY'')\<lparr>ackPolicy := ''none'', maxDeliver := 5\<rparr>)
     sourceConfig =
   Inr (sourceConfig\<lparr>Durable := ''COPY'', AckPolicy := AckNone, MaxDeliver := 5\<rparr>)"
  by (simp add: cpAction_def cpDefaults_def ackPolicyFromString_def ToLower_def lowerChar_def)

section \<open>Rate limit and pull mode\<close>

text \<open>
  C3, for the create path without a configuration file. On the create path without a configuration file, a requested non-zero
  rate limit is never dropped and never set on a pull-mode configuration: every
  configuration produced carries the requested limit and a non-empty delivery subject,
  and when the resolved delivery subject is empty (no \<open>--target\<close>, and \<open>--pull\<close> or an
  empty answer to the delivery prompt) the resolution fails.
\<close>

theorem prepareConfig_rate_limit_pull:
  assumes "inputFile c = []" and "0 < bpsRateLimit c"
  shows "(\<forall>cfg. prepareConfig e p c = Inr cfg \<longrightarrow>
            DeliverSubject cfg \<noteq> [] \<and> RateLimit cfg = bpsRateLimit c)
       \<and> (delivery c = [] \<and> (pull c \<or> askDelivery p = Some []) \<longrightarrow>
            (\<exists>f. prepareConfig e p c = Inl f))"
proof (intro conjI allI impI)
  fix cfg assume r: "prepareConfig e p c = Inr cfg"
  from prepareConfig_follow(4) [OF assms(1) r] assms(2) show "DeliverSubject cfg \<noteq> []" by simp
  from prepareConfig_follow(3) [OF assms(1) r] show "RateLimit cfg = bpsRateLimit c" .
next
  assume m: "delivery c = [] \<and> (pull c \<or> askDelivery p = Some [])"
  show "\<exists>f. prepareConfig e p c = Inl f"
  proof (cases "prepareConfig e p c")
    case (Inl f)
    then show ?thesis by blast
  next
    case (Inr cfg)
    from prepareConfig_follow(5) [OF assms(1) Inr] m have "DeliverSubject cfg = []"
      by auto
    with prepareConfig_follow(4) [OF assms(1) Inr] assms(2) show ?thesis by simp
  qed
qed

theorem prepareConfig_rate_limit_pull_witness:
  "(\<exists>f. prepareConfig idleEnv noAnswers
     (addFlags\<lparr>pull := True, delivery := [], bpsRateLimit := 1000, maxDeliver := 5,
        maxAckPending := 10\<rparr>) = Inl f)
   \<and> (\<exists>cfg. prepareConfig idleEnv noAnswers (addFlags\<lparr>bpsRateLimit := 1000\<rparr>) = Inr cfg
         \<and> DeliverSubject cfg \<noteq> [] \<and> RateLimit cfg = 1000)"
proof -
  let ?c = "addFlags\<lparr>pull := True, delivery := [], bpsRateLimit := 1000, maxDeliver := 5,
        maxAckPending := 10\<rparr>"
  have h1: "inputFile ?c = []" by (simp add: addFlags_def)
  have h2: "0 < bpsRateLimit ?c" by simp
  have h3: "delivery ?c = [] \<and> (pull ?c \<or> askDelivery noAnswers = Some [])" by simp
  from prepareConfig_rate_limit_pull [OF h1 h2, of idleEnv noAnswers] h3
  have a: "\<exists>f. prepareConfig idleEnv noAnswers ?c = Inl f"
    by blast
  let ?d = "addFlags\<lparr>bpsRateLimit := 1000\<rparr>"
  have g1: "inputFile ?d = []" by (simp add: addFlags_def)
  have g2: "0 < bpsRateLimit ?d" by simp
  obtain cfg where g3: "prepareConfig idleEnv noAnswers ?d = Inr cfg"
    by (simp add: resolution_defs addFlags_def noAnswers_def idleEnv_def)
  from prepareConfig_rate_limit_pull [OF g1 g2, of idleEnv noAnswers] g3
  have "DeliverSubject cfg \<noteq> [] \<and> RateLimit cfg = 1000"
    by simp
  with g3 a show ?thesis by blast
qed

text \<open>
  The copy path sets the rate limit on whatever configuration it has built:
  \<open>--pull --bps 1000\<close> yields a pull-mode configuration with the limit set.
\<close>

theorem cpAction_rate_limit_pull_counterexample:
  "cpAction idleEnv ((cpDefaults ''ORDERS'' ''NEW'' ''COPY'')\<lparr>pull := True, bpsRateLimit := 1000\<rparr>)
     sourceConfig =
   Inr (sourceConfig\<lparr>Durable := ''COPY'', DeliverSubject := [], AckPolicy := AckExplicit,
          RateLimit := 1000\<rparr>)"
  by (simp add: cpAction_def cpDefaults_def ackPolicyFromString_def ToLower_def lowerChar_def)

text \<open>With the limits given on the command line, the run ends in the rate-limit error itself.\<close>

lemma prepareConfig_rate_limit_error:
  "prepareConfig idleEnv noAnswers
     (addFlags\<lparr>pull := True, delivery := [], bpsRateLimit := 1000, maxDeliver := 5,
        maxAckPending := 10\<rparr>) = Inl (Error RateLimitOnPull)"
  by (simp add: resolution_defs addFlags_def noAnswers_def idleEnv_def)

section \<open>Characters of the durable name\<close>

text \<open>
  C4, for the create path without a configuration file. Every configuration produced by the create path without a
  configuration file has a durable name containing none of \<open>.\<close>, \<open>*\<close>, \<open>>\<close>, and a
  consumer name given on the command line that contains one of them is rejected with
  the fatal message about durable names.
\<close>

theorem prepareConfig_durable_chars:
  assumes "inputFile c = []"
  shows "(\<forall>cfg. prepareConfig e p c = Inr cfg \<longrightarrow>
            CHR ''.'' \<notin> set (Durable cfg) \<and> CHR ''*'' \<notin> set (Durable cfg)
            \<and> CHR ''>'' \<notin> set (Durable cfg))
       \<and> (hasReserved (consumer c) \<longrightarrow> prepareConfig e p c = Inl (Fatal DurableNameChars))"
proof (intro conjI allI impI)
  fix cfg assume r: "prepareConfig e p c = Inr cfg"
  from prepareConfig_follow(1) [OF assms r] have n: "\<not> hasReserved (Durable cfg)" .
  from n show "CHR ''.'' \<notin> set (Durable cfg)" by (auto simp: hasReserved_def list_ex_iff)
  from n show "CHR ''*'' \<notin> set (Durable cfg)" by (auto simp: hasReserved_def list_ex_iff)
  from n show "CHR ''>'' \<notin> set (Durable cfg)" by (auto simp: hasReserved_def list_ex_iff)
next
  assume h: "hasReserved (consumer c)"
  then have "consumer c \<noteq> []" by (auto simp: hasReserved_def)
  with h have "resolveName p (c, defaultConsumer) = Inl (Fatal DurableNameChars)"
    by (simp add: resolveName_def)
  with assms show "prepareConfig e p c = Inl (Fatal DurableNameChars)"
    by (simp add: prepareConfig_def)
qed

theorem prepareConfig_durable_chars_witness:
  "prepareConfig idleEnv noAnswers (addFlags\<lparr>consumer := ''a.b''\<rparr>) = Inl (Fatal DurableNameChars)
   \<and> CHR ''.'' \<notin> set ''NEW'' \<and> CHR ''*'' \<notin> set ''NEW'' \<and> CHR ''>'' \<notin> set ''NEW''"
proof -
  have h1: "inputFile (addFlags\<lparr>consumer := ''a.b''\<rparr>) = []" by (simp add: addFlags_def)
  have h2: "hasReserved (consumer (addFlags\<lparr>consumer := ''a.b''\<rparr>))" by (simp add: hasReserved_def)
  have h3: "inputFile addFlags = []" by (simp add: addFlags_def)
  have h4: "prepareConfig idleEnv noAnswers addFlags =
       Inr \<lparr>Durable = ''NEW'', DeliverSubject = ''out.new'', DeliverPolicy = DeliverAll,
            OptStartSeq = 0, OptStartTime = None, AckPolicy = AckNone, AckWait = 0,
            MaxDeliver = - 1, FilterSubject = [], ReplayPolicy = ReplayInstant,
            SampleFrequency = [], RateLimit = 0, MaxAckPending = 0\<rparr>"
    by (simp add: resolution_defs addFlags_def noAnswers_def idleEnv_def)
  from prepareConfig_durable_chars [OF h1, of idleEnv noAnswers] h2
  have a: "prepareConfig idleEnv noAnswers (addFlags\<lparr>consumer := ''a.b''\<rparr>) = Inl (Fatal DurableNameChars)"
    by blast
  from prepareConfig_durable_chars [OF h3, of idleEnv noAnswers] h4
  have "CHR ''.'' \<notin> set ''NEW'' \<and> CHR ''*'' \<notin> set ''NEW'' \<and> CHR ''>'' \<notin> set ''NEW''"
    by fastforce
  with a show ?thesis by blast
qed

text \<open>
  The copy path takes the destination name as it is: copying to \<open>a.b\<close> yields a
  configuration with that durable name.
\<close>

theorem cpAction_durable_chars_counterexample:
  "cpAction idleEnv (cpDefaults ''ORDERS'' ''NEW'' ''a.b'') sourceConfig =
     Inr (sourceConfig\<lparr>Durable := ''a.b''\<rparr>)
   \<and> CHR ''.'' \<in> set (Durable (sourceConfig\<lparr>Durable := ''a.b''\<rparr>))"
  by (simp add: cpAction_def cpDefaults_def)

text \<open>
  With \<open>--config FILE\<close> the decoded configuration is returned unchanged, whatever its
  durable name, acknowledgement policy, delivery limit and rate limit are, as long as
  the name agrees with the one on the command line.
\<close>

lemma prepareConfig_file_unchanged:
  assumes "inputFile c \<noteq> []" and "readFile e (inputFile c) = Inr f"
    and "unmarshal e f = (cfg, None)"
    and "Durable cfg = [] \<or> consumer c = [] \<or> Durable cfg = consumer c"
  shows "prepareConfig e p c = Inr cfg"
  using assms by (auto simp: prepareConfig_def prepareFromFile_def)

section \<open>The frame of a copy\<close>

lemma ackPolicyFromString_empty: "ackPolicyFromString [] = Inl (Fatal (InvalidAckPolicy []))"
  by (simp add: ackPolicyFromString_def ToLower_def)

lemma replayPolicyFromString_empty: "replayPolicyFromString [] = Inl (Fatal (InvalidReplayPolicy []))"
  by (simp add: replayPolicyFromString_def ToLower_def)

lemma cp_none: "cpAction e (cpDefaults st src dst) C = Inr (C\<lparr>Durable := dst\<rparr>)"
  by (simp add: cpAction_def cpDefaults_def)

lemma cp_ackWait:
  "0 < w \<Longrightarrow> cpAction e ((cpDefaults st src dst)\<lparr>ackWait := w\<rparr>) C = Inr (C\<lparr>Durable := dst, AckWait := w\<rparr>)"
  by (simp add: cpAction_def cpDefaults_def)

lemma cp_sample:
  "0 \<le> s \<Longrightarrow> s \<le> 100 \<Longrightarrow>
   cpAction e ((cpDefaults st src dst)\<lparr>samplePct := s\<rparr>) C =
     Inr (C\<lparr>Durable := dst, SampleFrequency := (if 0 < s then Itoa s else [])\<rparr>)"
  by (simp add: cpAction_def cpDefaults_def sampleFreqFromString_def)

lemma cp_start:
  "cpAction e ((cpDefaults st src dst)\<lparr>startPolicy := sp\<rparr>) C = Inr C' \<Longrightarrow>
   C' = C\<lparr>Durable := dst, DeliverPolicy := DeliverPolicy C', OptStartSeq := OptStartSeq C',
          OptStartTime := OptStartTime C'\<rparr>"
  by (cases "parseDurationString e sp")
     (auto simp: cpAction_def cpDefaults_def setStartPolicy_def split: if_splits)

lemma cp_ephemeral:
  "cpAction e ((cpDefaults st src dst)\<lparr>ephemeral := True\<rparr>) C = Inr (C\<lparr>Durable := []\<rparr>)"
  by (simp add: cpAction_def cpDefaults_def)

lemma cp_delivery:
  "d \<noteq> [] \<Longrightarrow>
   cpAction e ((cpDefaults st src dst)\<lparr>delivery := d\<rparr>) C = Inr (C\<lparr>Durable := dst, DeliverSubject := d\<rparr>)"
  by (simp add: cpAction_def cpDefaults_def)

lemma cp_pull:
  "cpAction e ((cpDefaults st src dst)\<lparr>pull := True\<rparr>) C =
     Inr (C\<lparr>Durable := dst, DeliverSubject := [], AckPolicy := AckExplicit\<rparr>)"
  by (simp add: cpAction_def cpDefaults_def ackPolicyFromString_def ToLower_def lowerChar_def)

lemma cp_ack:
  "ackPolicyFromString a = Inr ap \<Longrightarrow>
   cpAction e ((cpDefaults st src dst)\<lparr>ackPolicy := a\<rparr>) C = Inr (C\<lparr>Durable := dst, AckPolicy := ap\<rparr>)"
  by (cases "a = []") (simp_all add: ackPolicyFromString_empty cpAction_def cpDefaults_def)

lemma cp_filter:
  "f \<noteq> ''_unset_'' \<Longrightarrow>
   cpAction e ((cpDefaults st src dst)\<lparr>filterSubject := f\<rparr>) C = Inr (C\<lparr>Durable := dst, FilterSubject := f\<rparr>)"
  by (simp add: cpAction_def cpDefaults_def)

lemma cp_replay:
  "replayPolicyFromString r = Inr rp \<Longrightarrow>
   cpAction e ((cpDefaults st src dst)\<lparr>replayPolicy := r\<rparr>) C = Inr (C\<lparr>Durable := dst, ReplayPolicy := rp\<rparr>)"
  by (cases "r = []") (simp_all add: replayPolicyFromString_empty cpAction_def cpDefaults_def)

lemma cp_maxDeliver:
  "m \<noteq> 0 \<Longrightarrow>
   cpAction e ((cpDefaults st src dst)\<lparr>maxDeliver := m\<rparr>) C = Inr (C\<lparr>Durable := dst, MaxDeliver := m\<rparr>)"
  by (simp add: cpAction_def cpDefaults_def)

lemma cp_bps:
  "b \<noteq> 0 \<Longrightarrow>
   cpAction e ((cpDefaults st src dst)\<lparr>bpsRateLimit := b\<rparr>) C = Inr (C\<lparr>Durable := dst, RateLimit := b\<rparr>)"
  by (simp add: cpAction_def cpDefaults_def)

lemma cp_maxAckPending:
  "m \<noteq> - 1 \<Longrightarrow>
   cpAction e ((cpDefaults st src dst)\<lparr>maxAckPending := m\<rparr>) C = Inr (C\<lparr>Durable := dst, MaxAckPending := m\<rparr>)"
  by (simp add: cpAction_def cpDefaults_def)

text \<open>
  C5, with the fields each flag writes. For every source configuration \<open>C\<close>, the copy takes the destination
  as its durable name (the empty name with \<open>--ephemeral\<close>) and, with no further flag,
  equals \<open>C\<close> in every other field. With exactly one flag supplied it differs from that
  only in the field of the flag, with two exceptions: \<open>--deliver\<close> writes the deliver
  policy together with its start sequence and start time, and \<open>--pull\<close> clears the
  delivery subject and also sets the acknowledgement policy to explicit.
\<close>

theorem cpAction_frame:
  "cpAction e (cpDefaults st src dst) C = Inr (C\<lparr>Durable := dst\<rparr>)
   \<and> (0 < w \<longrightarrow>
        cpAction e ((cpDefaults st src dst)\<lparr>ackWait := w\<rparr>) C =
          Inr (C\<lparr>Durable := dst, AckWait := w\<rparr>))
   \<and> (0 \<le> s \<and> s \<le> 100 \<longrightarrow>
        cpAction e ((cpDefaults st src dst)\<lparr>samplePct := s\<rparr>) C =
          Inr (C\<lparr>Durable := dst, SampleFrequency := (if 0 < s then Itoa s else [])\<rparr>))
   \<and> (cpAction e ((cpDefaults st src dst)\<lparr>startPolicy := sp\<rparr>) C = Inr C' \<longrightarrow>
        C' = C\<lparr>Durable := dst, DeliverPolicy := DeliverPolicy C', OptStartSeq := OptStartSeq C',
               OptStartTime := OptStartTime C'\<rparr>)
   \<and> cpAction e ((cpDefaults st src dst)\<lparr>ephemeral := True\<rparr>) C = Inr (C\<lparr>Durable := []\<rparr>)
   \<and> (d \<noteq> [] \<longrightarrow>
        cpAction e ((cpDefaults st src dst)\<lparr>delivery := d\<rparr>) C =
          Inr (C\<lparr>Durable := dst, DeliverSubject := d\<rparr>))
   \<and> cpAction e ((cpDefaults st src dst)\<lparr>pull := True\<rparr>) C =
        Inr (C\<lparr>Durable := dst, DeliverSubject := [], AckPolicy := AckExplicit\<rparr>)
   \<and> (ackPolicyFromString a = Inr ap \<longrightarrow>
        cpAction e ((cpDefaults st src dst)\<lparr>ackPolicy := a\<rparr>) C =
          Inr (C\<lparr>Durable := dst, AckPolicy := ap\<rparr>))
   \<and> (f \<noteq> ''_unset_'' \<longrightarrow>
        cpAction e ((cpDefaults st src dst)\<lparr>filterSubject := f\<rparr>) C =
          Inr (C\<lparr>Durable := dst, FilterSubject := f\<rparr>))
   \<and> (replayPolicyFromString r = Inr rp \<longrightarrow>
        cpAction e ((cpDefaults st src dst)\<lparr>replayPolicy := r\<rparr>) C =
          Inr (C\<lparr>Durable := dst, ReplayPolicy := rp\<rparr>))
   \<and> (m \<noteq> 0 \<longrightarrow>
        cpAction e ((cpDefaults st src dst)\<lparr>maxDeliver := m\<rparr>) C =
          Inr (C\<lparr>Durable := dst, MaxDeliver := m\<rparr>))
   \<and> (b \<noteq> 0 \<longrightarrow>
        cpAction e ((cpDefaults st src dst)\<lparr>bpsRateLimit := b\<rparr>) C =
          Inr (C\<lparr>Durable := dst, RateLimit := b\<rparr>))
   \<and> (k \<noteq> - 1 \<longrightarrow>
        cpAction e ((cpDefaults st src dst)\<lparr>maxAckPending := k\<rparr>) C =
          Inr (C\<lparr>Durable := dst, MaxAckPending := k\<rparr>))"
  using cp_none cp_ackWait cp_sample cp_start cp_ephemeral cp_delivery cp_pull cp_ack
    cp_filter cp_replay cp_maxDeliver cp_bps cp_maxAckPending
  by (intro conjI impI) blast+

theorem cpAction_frame_witness:
  "cpAction idleEnv (cpDefaults ''ORDERS'' ''NEW'' ''COPY'') sourceConfig =
     Inr (sourceConfig\<lparr>Durable := ''COPY''\<rparr>)
   \<and> cpAction idleEnv ((cpDefaults ''ORDERS'' ''NEW'' ''COPY'')\<lparr>ackWait := 5\<rparr>) sourceConfig =
       Inr (sourceConfig\<lparr>Durable := ''COPY'', AckWait := 5\<rparr>)
   \<and> cpAction idleEnv ((cpDefaults ''ORDERS'' ''NEW'' ''COPY'')\<lparr>samplePct := 0\<rparr>) sourceConfig =
       Inr (sourceConfig\<lparr>Durable := ''COPY'', SampleFrequency := []\<rparr>)
   \<and> sourceConfig\<lparr>Durable := ''COPY'', DeliverPolicy := DeliverLast\<rparr> =
       sourceConfig\<lparr>Durable := ''COPY'', DeliverPolicy := DeliverLast, OptStartSeq := 0,
         OptStartTime := None\<rparr>
   \<and> cpAction idleEnv ((cpDefaults ''ORDERS'' ''NEW'' ''COPY'')\<lparr>ephemeral := True\<rparr>) sourceConfig =
       Inr (sourceConfig\<lparr>Durable := []\<rparr>)
   \<and> cpAction idleEnv ((cpDefaults ''ORDERS'' ''NEW'' ''COPY'')\<lparr>delivery := ''out.copy''\<rparr>) sourceConfig =
       Inr (sourceConfig\<lparr>Durable := ''COPY'', DeliverSubject := ''out.copy''\<rparr>)
   \<and> cpAction idleEnv ((cpDefaults ''ORDERS'' ''NEW'' ''COPY'')\<lparr>pull := True\<rparr>) sourceConfig =
       Inr (sourceConfig\<lparr>Durable := ''COPY'', DeliverSubject := [], AckPolicy := AckExplicit\<rparr>)
   \<and> cpAction idleEnv ((cpDefaults ''ORDERS'' ''NEW'' ''COPY'')\<lparr>ackPolicy := ''none''\<rparr>) sourceConfig =
       Inr (sourceConfig\<lparr>Durable := ''COPY'', AckPolicy := AckNone\<rparr>)
   \<and> cpAction idleEnv ((cpDefaults ''ORDERS'' ''NEW'' ''COPY'')\<lparr>filterSubject := ''orders.eu''\<rparr>) sourceConfig =
       Inr (sourceConfig\<lparr>Durable := ''COPY'', FilterSubject := ''orders.eu''\<rparr>)
   \<and> cpAction idleEnv ((cpDefaults ''ORDERS'' ''NEW'' ''COPY'')\<lparr>replayPolicy := ''original''\<rparr>) sourceConfig =
       Inr (sourceConfig\<lparr>Durable := ''COPY'', ReplayPolicy := ReplayOriginal\<rparr>)
   \<and> cpAction idleEnv ((cpDefaults ''ORDERS'' ''NEW'' ''COPY'')\<lparr>maxDeliver := 7\<rparr>) sourceConfig =
       Inr (sourceConfig\<lparr>Durable := ''COPY'', MaxDeliver := 7\<rparr>)
   \<and> cpAction idleEnv ((cpDefaults ''ORDERS'' ''NEW'' ''COPY'')\<lparr>bpsRateLimit := 1000\<rparr>) sourceConfig =
       Inr (sourceConfig\<lparr>Durable := ''COPY'', RateLimit := 1000\<rparr>)
   \<and> cpAction idleEnv ((cpDefaults ''ORDERS'' ''NEW'' ''COPY'')\<lparr>maxAckPending := 10\<rparr>) sourceConfig =
       Inr (sourceConfig\<lparr>Durable := ''COPY'', MaxAckPending := 10\<rparr>)"
proof -
  have h1: "(0::int) < 5" and h2: "(0::int) \<le> 0 \<and> (0::int) \<le> 100" by simp_all
  have h3: "cpAction idleEnv ((cpDefaults ''ORDERS'' ''NEW'' ''COPY'')\<lparr>startPolicy := ''last''\<rparr>) sourceConfig =
      Inr (sourceConfig\<lparr>Durable := ''COPY'', DeliverPolicy := DeliverLast\<rparr>)"
    by (simp add: cpAction_def cpDefaults_def setStartPolicy_def)
  have h4: "''out.copy'' \<noteq> []" by simp
  have h5: "ackPolicyFromString ''none'' = Inr AckNone"
    by (simp add: ackPolicyFromString_def ToLower_def lowerChar_def)
  have h6: "''orders.eu'' \<noteq> ''_unset_''" by simp
  have h7: "replayPolicyFromString ''original'' = Inr ReplayOriginal"
    by (simp add: replayPolicyFromString_def ToLower_def lowerChar_def)
  have h8: "(7::int) \<noteq> 0" and h9: "(1000::64 word) \<noteq> 0" and h10: "(10::int) \<noteq> - 1" by simp_all
  have v: "OptStartSeq sourceConfig = 0" "OptStartTime sourceConfig = None"
    by (simp_all add: sourceConfig_def)
  note t = cpAction_frame [of idleEnv "''ORDERS''" "''NEW''" "''COPY''" sourceConfig 5 0 "''last''"
      "sourceConfig\<lparr>Durable := ''COPY'', DeliverPolicy := DeliverLast\<rparr>" "''out.copy''"
      "''none''" AckNone "''orders.eu''" "''original''" ReplayOriginal 7 1000 10]
  from t h1 h2 h3 h4 h5 h6 h7 h8 h9 h10 v show ?thesis
    by simp
qed

text \<open>
  \<open>--pull\<close> alone changes the acknowledgement policy of the copy besides its delivery
  subject: the source acknowledges with policy all, the copy with policy explicit.
\<close>

theorem cpAction_frame_counterexample:
  "cpAction idleEnv ((cpDefaults ''ORDERS'' ''NEW'' ''COPY'')\<lparr>pull := True\<rparr>) sourceConfig =
     Inr (sourceConfig\<lparr>Durable := ''COPY'', DeliverSubject := [], AckPolicy := AckExplicit\<rparr>)
   \<and> AckPolicy sourceConfig = AckAll \<and> DeliverSubject sourceConfig = ''out.new''"
  by (simp add: cpAction_def cpDefaults_def ackPolicyFromString_def ToLower_def lowerChar_def
      sourceConfig_def)

section \<open>Sample percentage\<close>

text \<open>
  On the copy path \<open>sampleFreqFromString\<close> rejects every supplied percentage outside
  0 to 100; on both paths a percentage above 100 is rejected and 0 leaves the sample
  frequency empty.
\<close>

lemma cpAction_sample_out_of_range:
  "s \<noteq> - 1 \<Longrightarrow> s < 0 \<or> 100 < s \<Longrightarrow> samplePct c = s \<Longrightarrow>
   cpAction e c C = Inl (Fatal SamplePercentRange)"
  by (auto simp: cpAction_def sampleFreqFromString_def)

lemma resolveSample_over_100:
  "100 < samplePct c \<Longrightarrow> resolveSample (c, cfg) = Inl (Fatal SamplePercentRange)"
  by (simp add: resolveSample_def)

lemma resolveSample_not_positive:
  "samplePct c \<le> 0 \<Longrightarrow> resolveSample (c, cfg) = Inr (c, cfg)"
  by (simp add: resolveSample_def)

text \<open>
  C7. The claim asks that a supplied percentage below 0 (other than the sentinel -1) be
  rejected on the create path too. \<open>consumer add ... --sample -5\<close> is accepted there:
  the resolution returns a configuration, with the sample frequency left empty.
\<close>

theorem prepareConfig_negative_sample_accepted:
  "prepareConfig idleEnv noAnswers (addFlags\<lparr>samplePct := - 5\<rparr>) =
     Inr \<lparr>Durable = ''NEW'', DeliverSubject = ''out.new'', DeliverPolicy = DeliverAll,
          OptStartSeq = 0, OptStartTime = None, AckPolicy = AckNone, AckWait = 0,
          MaxDeliver = - 1, FilterSubject = [], ReplayPolicy = ReplayInstant,
          SampleFrequency = [], RateLimit = 0, MaxAckPending = 0\<rparr>"
  by (simp add: resolution_defs addFlags_def noAnswers_def idleEnv_def)

text \<open>The same percentage on the copy path ends the process.\<close>

lemma cpAction_negative_sample_rejected:
  "cpAction idleEnv ((cpDefaults ''ORDERS'' ''NEW'' ''COPY'')\<lparr>samplePct := - 5\<rparr>) sourceConfig =
     Inl (Fatal SamplePercentRange)"
  by (simp add: cpAction_def cpDefaults_def sampleFreqFromString_def)

section \<open>Leader step-down\<close>

text \<open>
  C9. When the consumer loads and its runtime state has no cluster part, the step-down
  operation returns the not-clustered error, and the only call it has made to the broker
  is the state query: no step-down request is issued.
\<close>

theorem leaderStandDown_not_clustered:
  assumes "loadConsumer b = None" and "stateCall b 0 = Inr info" and "Cluster info = None"
  shows "leaderStandDown b = ([StateQuery], Returned (Some NotClustered))
       \<and> StepDownRequest \<notin> set (fst (leaderStandDown b))"
  using assms by (simp add: leaderStandDown_def)

theorem leaderStandDown_not_clustered_witness:
  "leaderStandDown soloBroker = ([StateQuery], Returned (Some NotClustered))
   \<and> StepDownRequest \<notin> set (fst (leaderStandDown soloBroker))"
proof -
  have h1: "loadConsumer soloBroker = None" by (simp add: soloBroker_def)
  have h2: "stateCall soloBroker 0 = Inr \<lparr>Cluster = None\<rparr>" by (simp add: soloBroker_def)
  have h3: "Cluster \<lparr>Cluster = None\<rparr> = None" by simp
  from leaderStandDown_not_clustered [OF h1 h2 h3] show ?thesis .
qed

text \<open>
  The poll loop over a channel that delivers \<open>ticks\<close> values. It leaves through
  \<open>break\<close> only with a state whose leader differs from the one that stepped down.
\<close>

lemma pollLoop_broke:
  "pollLoop b leader ticks ctr q tr = (Broke info, q', tr') \<Longrightarrow>
   \<exists>cl. Cluster info = Some cl \<and> Leader cl \<noteq> leader"
proof (induction ticks arbitrary: ctr q tr)
  case 0
  then show ?case by simp
next
  case (Suc ticks)
  then show ?case
    by (auto split: if_splits sum.splits option.splits)
qed

lemma pollLoop_trace:
  "pollLoop b leader ticks ctr q tr = (x, q', tr') \<Longrightarrow>
   LogLine LeaderDidNotChange \<notin> set tr \<Longrightarrow> LogLine LeaderDidNotChange \<notin> set tr'"
proof (induction ticks arbitrary: ctr q tr)
  case 0
  then show ?case by simp
next
  case (Suc ticks)
  show ?case
  proof (cases "ctr = 5")
    case True
    with Suc.prems show ?thesis by simp
  next
    case False
    show ?thesis
    proof (cases "stateCall b q")
      case (Inl err)
      with False Suc.prems
      have "pollLoop b leader ticks (ctr + 1) (q + 1) (tr @ [StateQuery, LogLine (FailedState err)])
              = (x, q', tr')"
        by simp
      from Suc.IH [OF this] Suc.prems(2) show ?thesis by simp
    next
      case (Inr i)
      show ?thesis
      proof (cases "Cluster i")
        case None
        with Inr False Suc.prems show ?thesis by auto
      next
        case (Some cl)
        show ?thesis
        proof (cases "Leader cl = leader")
          case True
          with Some Inr False Suc.prems
          have "pollLoop b leader ticks (ctr + 1) (q + 1) (tr @ [StateQuery]) = (x, q', tr')"
            by simp
          from Suc.IH [OF this] Suc.prems(2) show ?thesis by simp
        next
          case False2: False
          with Some Inr False Suc.prems show ?thesis by auto
        qed
      qed
    qed
  qed
qed

text \<open>
  The line "Leader did not change after ..." is never logged, whatever the broker
  answers: after a \<open>break\<close> the leader has changed, and there is no other way to the
  statement.
\<close>

lemma leaderStandDown_never_reports_no_change:
  "LogLine LeaderDidNotChange \<notin> set (fst (leaderStandDown b))"
proof -
  have "LogLine LeaderDidNotChange \<notin> set (fst (showConsumer b q tr))"
    if "LogLine LeaderDidNotChange \<notin> set tr" for q tr
    using that by (simp add: showConsumer_def split: sum.splits)
  note sc = this
  show ?thesis
  proof (cases "loadConsumer b")
    case (Some err)
    then show ?thesis by (simp add: leaderStandDown_def)
  next
    case None
    show ?thesis
    proof (cases "stateCall b 0")
      case (Inl err)
      with None show ?thesis by (simp add: leaderStandDown_def)
    next
      case (Inr i)
      show ?thesis
      proof (cases "Cluster i")
        case None2: None
        with None Inr show ?thesis by (simp add: leaderStandDown_def)
      next
        case (Some cl)
        let ?tr = "[StateQuery, LogLine (Requesting (Leader cl) (length (Replicas cl) + 1)),
                    StepDownRequest]"
        show ?thesis
        proof (cases "leaderStepDown b")
          case Some2: (Some err)
          with None Inr Some show ?thesis by (simp add: leaderStandDown_def)
        next
          case None3: None
          obtain x q' tr' where pl: "pollLoop b (Leader cl) timerDeliveries 0 1 ?tr = (x, q', tr')"
            by (cases "pollLoop b (Leader cl) timerDeliveries 0 1 ?tr") auto
          from pollLoop_trace [OF pl] have tr': "LogLine LeaderDidNotChange \<notin> set tr'"
            by simp
          show ?thesis
          proof (cases x)
            case (Broke i')
            with pl pollLoop_broke [of b "Leader cl" timerDeliveries 0 1 ?tr i' q' tr']
            obtain cl' where "Cluster i' = Some cl'" "Leader cl' \<noteq> Leader cl"
              by auto
            with None Inr Some None3 pl Broke sc [OF tr', of q'] show ?thesis
              by (simp add: leaderStandDown_def)
          next
            case (LoopReturned c)
            with None Inr Some None3 pl tr' show ?thesis by (simp add: leaderStandDown_def)
          next
            case LoopBlocked
            with None Inr Some None3 pl tr' show ?thesis by (simp add: leaderStandDown_def)
          next
            case LoopPanicked
            with None Inr Some None3 pl tr' show ?thesis by (simp add: leaderStandDown_def)
          qed
        qed
      qed
    qed
  qed
qed

text \<open>
  After a first poll that shows the old leader, or that fails, the function waits for a
  second value of the timer channel, which never comes.
\<close>

lemma leaderStandDown_blocks:
  assumes "loadConsumer b = None" and "stateCall b 0 = Inr i0" and "Cluster i0 = Some cl"
    and "leaderStepDown b = None"
    and "(\<exists>err. stateCall b 1 = Inl err)
         \<or> (\<exists>i1 cl1. stateCall b 1 = Inr i1 \<and> Cluster i1 = Some cl1 \<and> Leader cl1 = Leader cl)"
  shows "snd (leaderStandDown b) = Blocked"
  using assms by (auto simp: leaderStandDown_def timerDeliveries_def)

text \<open>
  C1. The claim asks that the loop end after at most five attempts and that an unchanged
  leader be reported. Against a broker whose every answer shows the same leader, the
  function makes one attempt and then never returns.
\<close>

theorem leaderStandDown_same_leader_blocks:
  "leaderStandDown steadyBroker =
     ([StateQuery, LogLine (Requesting ''n1'' 3), StepDownRequest, StateQuery], Blocked)"
  by (simp add: leaderStandDown_def steadyBroker_def timerDeliveries_def)

text \<open>
  The counter and its bound are in the loop: over a channel that kept delivering, the
  same broker would be polled five times and the sixth value would end the function with
  the error that no leader was elected in time.
\<close>

lemma pollLoop_six_values:
  "pollLoop steadyBroker ''n1'' (Suc (Suc (Suc (Suc (Suc (Suc 0)))))) 0 1 [] =
     (LoopReturned NoLeaderInTime, 6, [StateQuery, StateQuery, StateQuery, StateQuery, StateQuery])"
  by (simp add: steadyBroker_def)

section \<open>Acknowledgements on a subscription\<close>

lemma deliver_no_ack:
  "\<not> ack c \<Longrightarrow> Respond m \<notin> set (fst (deliver c ms))"
proof (induction ms)
  case Nil
  then show ?case by simp
next
  case (Cons x xs)
  then show ?case
    by (cases "metadataErr x"; cases "deliver c xs") (auto simp: onMessage_def)
qed

text \<open>
  C8. For a push consumer whose acknowledgement policy is none, \<open>subAction\<close> sends no
  acknowledgement for any message that arrives on the subscription, whether or not the
  caller asked for acknowledgements.
\<close>

theorem subAction_ackNone_never_responds:
  assumes "loadErr s = None" and "hAckPolicy (handle s) = AckNone"
    and "\<not> hIsPullMode (handle s)" and "hIsPushMode (handle s)"
  shows "Respond m \<notin> set (fst (subAction c s))"
proof -
  have "Respond m \<notin> set (fst (deliver (c\<lparr>ack := False\<rparr>) (incoming s)))"
    by (rule deliver_no_ack) simp
  with assms show ?thesis
    by (cases "deliver (c\<lparr>ack := False\<rparr>) (incoming s)")
       (auto simp: subAction_def subscribeConsumer_def split: option.splits)
qed

theorem subAction_ackNone_never_responds_witness:
  "ack subFlags \<and> incoming pushNone = [msgA, msgB]
   \<and> Respond msgA \<notin> set (fst (subAction subFlags pushNone))
   \<and> Respond msgB \<notin> set (fst (subAction subFlags pushNone))"
proof -
  have h1: "loadErr pushNone = None" and h2: "hAckPolicy (handle pushNone) = AckNone"
    and h3: "\<not> hIsPullMode (handle pushNone)" and h4: "hIsPushMode (handle pushNone)"
    by (simp_all add: pushNone_def)
  have "ack subFlags" by (simp add: subFlags_def)
  moreover have "incoming pushNone = [msgA, msgB]" by (simp add: pushNone_def)
  ultimately show ?thesis
    using subAction_ackNone_never_responds [OF h1 h2 h3 h4, of msgA subFlags]
      subAction_ackNone_never_responds [OF h1 h2 h3 h4, of msgB subFlags]
    by simp
qed

text \<open>Two messages arrive: both are rendered, none is acknowledged, and the command keeps waiting.\<close>

lemma subAction_pushNone_run:
  "subAction subFlags pushNone = ([Banner, Render msgA, Render msgB], Blocked)"
  by (simp add: subAction_def pushNone_def subFlags_def addFlags_def subscribeConsumer_def
      onMessage_def msgA_def msgB_def)

text \<open>With any other policy the same caller does acknowledge each message.\<close>

lemma subAction_ackAll_run:
  "subAction subFlags (pushNone\<lparr>handle := (handle pushNone)\<lparr>hAckPolicy := AckAll\<rparr>\<rparr>) =
     ([Banner, Render msgA, Respond msgA, Render msgB, Respond msgB], Blocked)"
  by (simp add: subAction_def pushNone_def subFlags_def addFlags_def subscribeConsumer_def
      onMessage_def msgA_def msgB_def)

section \<open>The validation bypass\<close>

text \<open>
  C10. With \<open>NOVALIDATE\<close> set, \<open>validateCfg\<close> returns no bytes for any configuration,
  and whenever the serialization succeeds it reports the configuration valid with no
  error. \<open>createAction\<close> then prints an empty line for the serialization under
  \<open>--validate\<close>, and under \<open>--output FILE\<close> writes the empty content to the file.
\<close>

theorem validateCfg_bypass_drops_bytes:
  assumes "getenvNOVALIDATE e \<noteq> []"
  shows "fst (snd (validateCfg e cfg)) = None
       \<and> (\<forall>j. marshalIndent e cfg = Inr j \<longrightarrow> validateCfg e cfg = (True, None, [], None))
       \<and> (\<forall>p c j. prepareConfig e p c = Inr cfg \<and> marshalIndent e cfg = Inr j \<longrightarrow>
            (validateOnly c \<longrightarrow>
               createAction e p c =
                 ([Println [], Println [], Println ''Configuration is a valid Consumer''],
                  Returned None))
          \<and> (\<not> validateOnly c \<and> outFile c \<noteq> [] \<longrightarrow>
               createAction e p c =
                 ([WriteFile (outFile c) []],
                  Returned (map_option External (writeFile e (outFile c) [])))))"
  using assms
  by (auto simp: validateCfg_def createAction_def bytesString_def split: sum.splits)

theorem validateCfg_bypass_drops_bytes_witness:
  "validateCfg bypassEnv (sourceConfig\<lparr>Durable := ''NEW''\<rparr>) = (True, None, [], None)
   \<and> createAction bypassEnv noAnswers (addFlags\<lparr>validateOnly := True\<rparr>) =
       ([Println [], Println [], Println ''Configuration is a valid Consumer''], Returned None)
   \<and> createAction bypassEnv noAnswers (addFlags\<lparr>outFile := ''c.json''\<rparr>) =
       ([WriteFile ''c.json'' []], Returned None)"
proof -
  let ?cfg = "\<lparr>Durable = ''NEW'', DeliverSubject = ''out.new'', DeliverPolicy = DeliverAll,
          OptStartSeq = 0, OptStartTime = None, AckPolicy = AckNone, AckWait = 0,
          MaxDeliver = - 1, FilterSubject = [], ReplayPolicy = ReplayInstant,
          SampleFrequency = [], RateLimit = 0, MaxAckPending = 0\<rparr>"
  have h: "getenvNOVALIDATE bypassEnv \<noteq> []" by (simp add: bypassEnv_def)
  have m1: "marshalIndent bypassEnv (sourceConfig\<lparr>Durable := ''NEW''\<rparr>) = Inr ''durable_name: NEW''"
    and m2: "marshalIndent bypassEnv ?cfg = Inr ''durable_name: NEW''"
    by (simp_all add: bypassEnv_def)
  have p1: "prepareConfig bypassEnv noAnswers (addFlags\<lparr>validateOnly := True\<rparr>) = Inr ?cfg"
    and p2: "prepareConfig bypassEnv noAnswers (addFlags\<lparr>outFile := ''c.json''\<rparr>) = Inr ?cfg"
    by (simp_all add: resolution_defs addFlags_def noAnswers_def)
  have f1: "validateOnly (addFlags\<lparr>validateOnly := True\<rparr>)" by simp
  have f2: "\<not> validateOnly (addFlags\<lparr>outFile := ''c.json''\<rparr>)
            \<and> outFile (addFlags\<lparr>outFile := ''c.json''\<rparr>) \<noteq> []"
    by (simp add: addFlags_def)
  have w: "writeFile bypassEnv ''c.json'' [] = None" by (simp add: bypassEnv_def)
  from validateCfg_bypass_drops_bytes [OF h, of "sourceConfig\<lparr>Durable := ''NEW''\<rparr>"] m1
  have a: "validateCfg bypassEnv (sourceConfig\<lparr>Durable := ''NEW''\<rparr>) = (True, None, [], None)"
    by simp
  from validateCfg_bypass_drops_bytes [OF h, of ?cfg] p1 m2 f1
  have b: "createAction bypassEnv noAnswers (addFlags\<lparr>validateOnly := True\<rparr>) =
       ([Println [], Println [], Println ''Configuration is a valid Consumer''], Returned None)"
    by blast
  from validateCfg_bypass_drops_bytes [OF h, of ?cfg] p2 m2 f2
  have "createAction bypassEnv noAnswers (addFlags\<lparr>outFile := ''c.json''\<rparr>) =
       ([WriteFile (outFile (addFlags\<lparr>outFile := ''c.json''\<rparr>)) []],
        Returned (map_option External
          (writeFile bypassEnv (outFile (addFlags\<lparr>outFile := ''c.json''\<rparr>)) [])))"
    by blast
  with w have c: "createAction bypassEnv noAnswers (addFlags\<lparr>outFile := ''c.json''\<rparr>) =
       ([WriteFile ''c.json'' []], Returned None)"
    by simp
  from a b c show ?thesis by blast
qed

text \<open>Without the bypass the same run writes the serialization it computed.\<close>

lemma createAction_output_validated:
  "createAction (bypassEnv\<lparr>getenvNOVALIDATE := [], validate := (\<lambda>cfg. (True, []))\<rparr>) noAnswers
     (addFlags\<lparr>outFile := ''c.json''\<rparr>) =
     ([WriteFile ''c.json'' ''durable_name: NEW''], Returned None)"
  by (simp add: createAction_def validateCfg_def bytesString_def bypassEnv_def resolution_defs
      addFlags_def noAnswers_def)

end
